theory Spec2Isabelle
  imports Main "HOL-Library.AList"
begin

section \<open>Dates and times\<close>

text \<open>
  A Python \<^verbatim>\<open>datetime\<close> without time zone (a naive one) is modelled as the number of
  microseconds since the midnight that begins day 0 of the proleptic Gregorian ordinal
  (\<^verbatim>\<open>date.toordinal()\<close>), so that day 1 is 0001-01-01, a Monday.  A \<^verbatim>\<open>date\<close> is its
  ordinal, a \<^verbatim>\<open>time\<close> the number of microseconds since midnight, a \<^verbatim>\<open>timedelta\<close> a
  number of microseconds.  All datetimes that \<^verbatim>\<open>mock_calendar.py\<close> builds itself
  (\<^verbatim>\<open>datetime.combine\<close>, \<^verbatim>\<open>datetime.now()\<close>) are naive; the bounds of Python's
  datetime range (years 1 to 9999) are not modelled.
\<close>

type_synonym datetime = int
type_synonym date = int

definition us_per_minute :: int where
  "us_per_minute = 60000000"

definition us_per_day :: int where
  "us_per_day = 86400000000"

definition minutes :: "int \<Rightarrow> int" where
  \<comment> \<open>\<^verbatim>\<open>timedelta(minutes=m)\<close>\<close>
  "minutes m = m * us_per_minute"

definition days :: "int \<Rightarrow> int" where
  \<comment> \<open>\<^verbatim>\<open>timedelta(days=d)\<close>\<close>
  "days d = d * us_per_day"

definition time_hm :: "int \<Rightarrow> int \<Rightarrow> int" where
  \<comment> \<open>\<^verbatim>\<open>time(h, m)\<close>\<close>
  "time_hm h m = (h * 60 + m) * us_per_minute"

definition date_of :: "datetime \<Rightarrow> date" where
  \<comment> \<open>\<^verbatim>\<open>dt.date()\<close>\<close>
  "date_of t = t div us_per_day"

definition time_of :: "datetime \<Rightarrow> int" where
  \<comment> \<open>\<^verbatim>\<open>dt.time()\<close>\<close>
  "time_of t = t mod us_per_day"

definition combine :: "date \<Rightarrow> int \<Rightarrow> datetime" where
  \<comment> \<open>\<^verbatim>\<open>datetime.combine(d, t)\<close>\<close>
  "combine d t = d * us_per_day + t"

definition weekday :: "date \<Rightarrow> int" where
  \<comment> \<open>\<^verbatim>\<open>d.weekday()\<close>: Monday is 0, Sunday is 6; CPython computes it from the ordinal\<close>
  "weekday d = (d + 6) mod 7"

definition hour_of :: "datetime \<Rightarrow> int" where
  \<comment> \<open>\<^verbatim>\<open>dt.hour\<close>\<close>
  "hour_of t = time_of t div (60 * us_per_minute)"

section \<open>Decimal formatting and substring search\<close>

fun str_of_nat :: "nat \<Rightarrow> string" where
  \<comment> \<open>\<^verbatim>\<open>f"{n}"\<close> for a non-negative integer\<close>
  "str_of_nat n =
     (if n < 10 then [''0123456789'' ! n]
      else str_of_nat (n div 10) @ [''0123456789'' ! (n mod 10)])"

declare str_of_nat.simps [simp del]

definition str_of_int :: "int \<Rightarrow> string" where
  "str_of_int i = (if i < 0 then CHR ''-'' # str_of_nat (nat (- i)) else str_of_nat (nat i))"

fun is_prefix :: "string \<Rightarrow> string \<Rightarrow> bool" where
  "is_prefix [] ys = True"
| "is_prefix (x # xs) [] = False"
| "is_prefix (x # xs) (y # ys) = (x = y \<and> is_prefix xs ys)"

fun contains :: "string \<Rightarrow> string \<Rightarrow> bool" where
  \<comment> \<open>\<^verbatim>\<open>needle in haystack\<close>; the haystack comes first\<close>
  "contains [] needle = (needle = [])"
| "contains (c # cs) needle = (is_prefix needle (c # cs) \<or> contains cs needle)"

definition lower_char :: "char \<Rightarrow> char" where
  \<comment> \<open>\<^verbatim>\<open>str.lower()\<close> on one character; only the ASCII letters change\<close>
  "lower_char c =
     (case map_of (zip ''ABCDEFGHIJKLMNOPQRSTUVWXYZ'' ''abcdefghijklmnopqrstuvwxyz'') c of
        Some l \<Rightarrow> l
      | None \<Rightarrow> c)"

definition lower :: "string \<Rightarrow> string" where
  "lower s = map lower_char s"

section \<open>Data model (\<^verbatim>\<open>app/models/schemas.py\<close>)\<close>

datatype ConversationStateEnum =
  INITIAL | COLLECTING_DETAILS | CHECKING_AVAILABILITY | SUGGESTING_SLOTS
  | CONFIRMING_BOOKING | BOOKING_COMPLETE

record TimeSlot =
  start_time :: datetime
  end_time :: datetime
  duration_minutes :: int

record CalendarEvent =
  ev_id :: string
  ev_title :: string
  ev_description :: "string option"
  ev_start_time :: datetime
  ev_end_time :: datetime
  ev_location :: "string option"
  ev_attendees :: "string list"

record BookingResponse =
  success :: bool
  message :: string
  event_id :: "string option"

section \<open>The in-memory calendar (\<^verbatim>\<open>app/calendar/mock_calendar.py\<close>)\<close>

text \<open>
  \<^verbatim>\<open>self.events\<close> is a Python dict from event id to event.  It is modelled as an
  association list in insertion order: \<^const>\<open>AList.update\<close> replaces the value of a key that
  is present and appends a new key at the end, as dict assignment does, and
  \<^const>\<open>AList.delete\<close> is \<^verbatim>\<open>del\<close>.  The business hours are set once in \<^verbatim>\<open>__init__\<close> and never
  assigned again, so they are constants here.
\<close>

record MockCalendar =
  events :: "(string \<times> CalendarEvent) list"

definition business_hours_start :: int where
  "business_hours_start = time_hm 9 0"

definition business_hours_end :: int where
  "business_hours_end = time_hm 18 0"

definition events_values :: "MockCalendar \<Rightarrow> CalendarEvent list" where
  \<comment> \<open>\<^verbatim>\<open>self.events.values()\<close>\<close>
  "events_values cal = map snd (events cal)"

text \<open>
  The loop of \<^verbatim>\<open>_generate_day_slots\<close>:
  \<^verbatim>\<open>while current_time + timedelta(minutes=duration_minutes) <= end_datetime\<close>, stepping
  \<^verbatim>\<open>current_time\<close> by 30 minutes.  The step does not depend on the duration, so the loop
  stops for every duration, also a negative one.
\<close>

function day_slots_loop :: "datetime \<Rightarrow> datetime \<Rightarrow> int \<Rightarrow> TimeSlot list" where
  "day_slots_loop current_time end_datetime duration =
     (if current_time + minutes duration \<le> end_datetime
      then \<lparr>start_time = current_time,
            end_time = current_time + minutes duration,
            duration_minutes = duration\<rparr>
           # day_slots_loop (current_time + minutes 30) end_datetime duration
      else [])"
  by pat_completeness auto
termination
  by (relation "measure (\<lambda>(c, e, d). nat (e - minutes d - c + 1))")
     (auto simp: minutes_def us_per_minute_def)

declare day_slots_loop.simps [simp del]

definition generate_day_slots :: "date \<Rightarrow> int \<Rightarrow> TimeSlot list" where
  "generate_day_slots date_obj duration =
     day_slots_loop (combine date_obj business_hours_start)
       (combine date_obj business_hours_end) duration"

fun slot_is_available :: "TimeSlot \<Rightarrow> CalendarEvent list \<Rightarrow> bool" where
  \<comment> \<open>the inner \<^verbatim>\<open>for event in self.events.values()\<close> with its \<^verbatim>\<open>break\<close>\<close>
  "slot_is_available slot [] = True"
| "slot_is_available slot (event # rest) =
     (if start_time slot < ev_end_time event \<and> end_time slot > ev_start_time event
      then False
      else slot_is_available slot rest)"

definition filter_conflicting_slots :: "MockCalendar \<Rightarrow> TimeSlot list \<Rightarrow> TimeSlot list" where
  "filter_conflicting_slots cal slots =
     filter (\<lambda>slot. slot_is_available slot (events_values cal)) slots"

function availability_loop :: "MockCalendar \<Rightarrow> date \<Rightarrow> date \<Rightarrow> int \<Rightarrow> TimeSlot list" where
  "availability_loop cal current_date end_date_only duration =
     (if current_date \<le> end_date_only
      then (if weekday current_date \<ge> 5
            then availability_loop cal (current_date + 1) end_date_only duration
            else filter_conflicting_slots cal (generate_day_slots current_date duration)
                 @ availability_loop cal (current_date + 1) end_date_only duration)
      else [])"
  by pat_completeness auto
termination
  by (relation "measure (\<lambda>(cal, c, e, d). nat (e - c + 1))") auto

declare availability_loop.simps [simp del]

definition get_availability :: "MockCalendar \<Rightarrow> datetime \<Rightarrow> datetime \<Rightarrow> int \<Rightarrow> TimeSlot list" where
  \<comment> \<open>the \<^verbatim>\<open>available_slots\<close> of the returned \<^verbatim>\<open>AvailabilityResponse\<close>\<close>
  "get_availability cal start_date end_date duration =
     availability_loop cal (date_of start_date) (date_of end_date) duration"

section \<open>The date parser (\<^verbatim>\<open>app/utils/date_parser.py\<close>) as a parameter\<close>

text \<open>
  The parsing functions search the text with regular expressions and with the
  \<^verbatim>\<open>dateutil\<close> library, and \<^verbatim>\<open>format_datetime\<close> is \<^verbatim>\<open>strftime\<close>.  The dialogue only
  consumes their results, so the global \<^verbatim>\<open>date_parser\<close> is a record of functions that
  the model takes as a parameter.
\<close>

record DateParser =
  parse_time_range :: "string \<Rightarrow> (datetime \<times> datetime) option"
  parse_date_time :: "string \<Rightarrow> datetime option"
  parse_duration :: "string \<Rightarrow> int option"
  format_datetime :: "datetime \<Rightarrow> string"

section \<open>Booking in the in-memory calendar\<close>

text \<open>
  \<^verbatim>\<open>book_appointment\<close> reads the clock for the event id:
  \<^verbatim>\<open>f"event_{len(self.events)}_{int(datetime.now().timestamp())}"\<close>; the integer
  timestamp is the parameter \<open>now_ts\<close>.  The keyword arguments \<^verbatim>\<open>error_code\<close> and
  \<^verbatim>\<open>event_details\<close> are not fields of \<^verbatim>\<open>BookingResponse\<close> and are dropped by the
  model class.  The dialogue passes the draft's title, which is optional: for a title of
  \<^verbatim>\<open>None\<close> the constructor \<^verbatim>\<open>CalendarEvent(title=None, ...)\<close> raises a validation error
  inside the \<^verbatim>\<open>try\<close> block, after the availability check and before the store is
  written, and \<^verbatim>\<open>except Exception\<close> turns it into a failure response.  The function
  returns the response and the calendar after the call.
\<close>

definition whole_minutes :: "int \<Rightarrow> int" where
  \<comment> \<open>\<^verbatim>\<open>int(delta.total_seconds() / 60)\<close>: truncation towards zero\<close>
  "whole_minutes delta =
     (if delta \<ge> 0 then delta div us_per_minute else - ((- delta) div us_per_minute))"

definition new_event_id :: "MockCalendar \<Rightarrow> int \<Rightarrow> string" where
  "new_event_id cal now_ts =
     ''event_'' @ str_of_nat (length (events cal)) @ ''_'' @ str_of_int now_ts"

definition title_validation_error :: string where
  "title_validation_error = ''1 validation error for CalendarEvent: title''"

definition book_appointment ::
  "DateParser \<Rightarrow> int \<Rightarrow> MockCalendar \<Rightarrow> string option \<Rightarrow> datetime \<Rightarrow> datetime
    \<Rightarrow> string option \<Rightarrow> string list \<Rightarrow> BookingResponse \<times> MockCalendar" where
  "book_appointment dp now_ts cal title_arg start_t end_t description_arg attendees_arg =
     (if start_t \<ge> end_t
      then (\<lparr>success = False, message = ''Start time must be before end time'',
             event_id = None\<rparr>, cal)
      else
        let availability =
              get_availability cal start_t end_t (whole_minutes (end_t - start_t))
        in if availability = []
           then (\<lparr>success = False, message = ''The requested time slot is not available'',
                  event_id = None\<rparr>, cal)
           else
             let new_id = new_event_id cal now_ts
             in (case title_arg of
                   None \<Rightarrow>
                     (\<lparr>success = False,
                       message = ''Failed to book appointment: '' @ title_validation_error,
                       event_id = None\<rparr>, cal)
                 | Some t \<Rightarrow>
                     let event =
                           \<lparr>ev_id = new_id, ev_title = t,
                            ev_description =
                              (case description_arg of
                                 None \<Rightarrow> Some ''Appointment booked via AI assistant''
                               | Some d \<Rightarrow>
                                   if d = [] then Some ''Appointment booked via AI assistant''
                                   else Some d),
                            ev_start_time = start_t, ev_end_time = end_t,
                            ev_location = None, ev_attendees = attendees_arg\<rparr>
                     in (\<lparr>success = True,
                          message = ''Appointment '' @ [CHR 0x27] @ t @ [CHR 0x27]
                                    @ '' booked successfully for '' @ format_datetime dp start_t,
                          event_id = Some new_id\<rparr>,
                         cal\<lparr>events := AList.update new_id event (events cal)\<rparr>)))"

definition delete_event :: "MockCalendar \<Rightarrow> string \<Rightarrow> bool \<times> MockCalendar" where
  "delete_event cal eid =
     (if eid \<in> fst ` set (events cal)
      then (True, cal\<lparr>events := AList.delete eid (events cal)\<rparr>)
      else (False, cal))"

text \<open>The four events that \<^verbatim>\<open>_generate_mock_events\<close> seeds, relative to today's date.\<close>

definition mock_event :: "nat \<Rightarrow> string \<Rightarrow> datetime \<Rightarrow> datetime \<Rightarrow> string \<Rightarrow> string \<times> CalendarEvent" where
  "mock_event i title s e description =
     (''mock_event_'' @ str_of_nat i,
      \<lparr>ev_id = ''mock_event_'' @ str_of_nat i, ev_title = title,
       ev_description = Some description, ev_start_time = s, ev_end_time = e,
       ev_location = None, ev_attendees = []\<rparr>)"

definition generate_mock_events :: "date \<Rightarrow> MockCalendar" where
  "generate_mock_events today =
     \<lparr>events =
        [mock_event 0 ''Team Meeting'' (combine (today + 1) (time_hm 10 0))
           (combine (today + 1) (time_hm 11 0)) ''Weekly team sync'',
         mock_event 1 ''Client Call'' (combine (today + 1) (time_hm 14 0))
           (combine (today + 1) (time_hm 15 0)) ''Project discussion'',
         mock_event 2 ''Lunch Break'' (combine (today + 2) (time_hm 12 0))
           (combine (today + 2) (time_hm 13 0)) ''Lunch with colleagues'',
         mock_event 3 ''Product Review'' (combine (today + 3) (time_hm 9 0))
           (combine (today + 3) (time_hm 10 30)) ''Monthly product review meeting'']\<rparr>"

section \<open>Drafts, extraction results and the session state\<close>

text \<open>
  \<^verbatim>\<open>AppointmentRequest\<close> is the draft.  The field \<^verbatim>\<open>preferred_times\<close> is never read
  and is left out.  The duration field is called \<open>req_duration\<close> here because
  \<^verbatim>\<open>TimeSlot\<close> has a field of the same name.
\<close>

record AppointmentRequest =
  title :: "string option"
  description :: "string option"
  start_date :: "datetime option"
  end_date :: "datetime option"
  req_duration :: "int option"
  attendees :: "string list"

definition new_request :: AppointmentRequest where
  \<comment> \<open>\<^verbatim>\<open>AppointmentRequest(duration_minutes=60)\<close>\<close>
  "new_request =
     \<lparr>title = None, description = None, start_date = None, end_date = None,
      req_duration = Some 60, attendees = []\<rparr>"

text \<open>
  The dictionary that \<^verbatim>\<open>_extract_appointment_info_with_ai\<close> returns, after the reads
  the merge makes of it: \<open>ex_start_time\<close> and \<open>ex_end_time\<close> are \<open>Some\<close> when the
  entry is present, truthy and accepted by \<^verbatim>\<open>datetime.fromisoformat\<close> (a string that is
  not accepted is skipped by the \<^verbatim>\<open>try\<close>/\<^verbatim>\<open>except: pass\<close> around the assignment); the
  other entries are the values as they are, \<open>None\<close> for a missing or null entry.
\<close>

record ExtractedInfo =
  ex_start_time :: "datetime option"
  ex_end_time :: "datetime option"
  ex_duration :: "int option"
  ex_title :: "string option"
  ex_description :: "string option"

datatype exn =
  AttributeError string | TypeError string | ValidationError string | OtherError string

fun str_exn :: "exn \<Rightarrow> string" where
  \<comment> \<open>\<^verbatim>\<open>str(e)\<close>\<close>
  "str_exn (AttributeError s) = s"
| "str_exn (TypeError s) = s"
| "str_exn (ValidationError s) = s"
| "str_exn (OtherError s) = s"

text \<open>
  The replies are f-strings around fixed templates.  A reply is modelled by a
  constructor for its template that carries the interpolated values, in the order of
  their first use in the template.
\<close>

datatype Reply =
    AskDuration string
  | AskTime
  | SlotAvailable string "int option" string
  | CalendarError string
  | Alternatives string "int option" string "string list"
  | NoAlternatives "int option"
  | AlternativesError string
  | SlotChosen string "int option" string
  | Booked "string option" string "int option" "string option"
  | BookingFailed string
  | BookingError string
  | Cancelled
  | Unclear

datatype Message = UserMessage string | AssistantMessage Reply

record AgentState =
  current_state :: ConversationStateEnum
  appointment_request :: "AppointmentRequest option"
  available_slots :: "TimeSlot list"
  messages :: "Message list"

fun last_user :: "Message list \<Rightarrow> string option" where
  \<comment> \<open>the loop of \<^verbatim>\<open>get_last_user_message\<close>, on the reversed list\<close>
  "last_user [] = None"
| "last_user (UserMessage c # rest) = Some c"
| "last_user (AssistantMessage r # rest) = last_user rest"

definition get_last_user_message :: "AgentState \<Rightarrow> string option" where
  "get_last_user_message st = last_user (rev (messages st))"

definition add_user_message :: "string \<Rightarrow> AgentState \<Rightarrow> AgentState" where
  "add_user_message c st = st\<lparr>messages := messages st @ [UserMessage c]\<rparr>"

definition add_assistant_message :: "Reply \<Rightarrow> AgentState \<Rightarrow> AgentState" where
  "add_assistant_message r st = st\<lparr>messages := messages st @ [AssistantMessage r]\<rparr>"

definition update_state :: "ConversationStateEnum \<Rightarrow> AgentState \<Rightarrow> AgentState" where
  "update_state new_state st = st\<lparr>current_state := new_state\<rparr>"

definition set_appointment_request :: "AppointmentRequest \<Rightarrow> AgentState \<Rightarrow> AgentState" where
  "set_appointment_request r st = st\<lparr>appointment_request := Some r\<rparr>"

section \<open>The calendar service behind the dialogue\<close>

text \<open>
  \<^verbatim>\<open>get_calendar_service\<close> returns the in-memory calendar or the Google calendar.  The
  Google calendar answers from a remote service, so it is a record of the three answers
  the dialogue asks for, each of which may be an exception.  The in-memory calendar is the
  model above.  \<^verbatim>\<open>MockCalendar\<close> defines no method \<^verbatim>\<open>is_time_available\<close>: looking the
  attribute up raises \<^verbatim>\<open>AttributeError\<close> before any argument is evaluated.
\<close>

record GoogleCalendar =
  g_is_time_available :: "datetime \<Rightarrow> datetime \<Rightarrow> exn + bool"
  g_get_availability :: "datetime \<Rightarrow> datetime \<Rightarrow> int \<Rightarrow> exn + TimeSlot list"
  g_book_appointment ::
    "string option \<Rightarrow> datetime \<Rightarrow> datetime \<Rightarrow> string option \<Rightarrow> string list
      \<Rightarrow> exn + BookingResponse"

datatype CalendarService = Mock MockCalendar | Google GoogleCalendar

record Env =
  client :: "(string \<Rightarrow> AppointmentRequest \<Rightarrow> exn + ExtractedInfo) option"
  date_parser :: DateParser
  now :: datetime
  now_ts :: int

definition resolved_end :: "AppointmentRequest \<Rightarrow> datetime \<Rightarrow> exn + datetime" where
  \<comment> \<open>\<^verbatim>\<open>end_date or (start_date + timedelta(minutes=duration_minutes))\<close>\<close>
  "resolved_end r s =
     (case end_date r of
        Some e \<Rightarrow> Inr e
      | None \<Rightarrow>
          (case req_duration r of
             None \<Rightarrow>
               Inl (TypeError ''unsupported type for timedelta minutes component: NoneType'')
           | Some d \<Rightarrow> Inr (s + minutes d)))"

definition no_is_time_available :: exn where
  "no_is_time_available =
     AttributeError ([CHR 0x27] @ ''MockCalendar'' @ [CHR 0x27] @ '' object has no attribute ''
                     @ [CHR 0x27] @ ''is_time_available'' @ [CHR 0x27])"

definition svc_is_time_available ::
  "CalendarService \<Rightarrow> AppointmentRequest \<Rightarrow> datetime \<Rightarrow> exn + bool" where
  "svc_is_time_available svc r s =
     (case svc of
        Mock cal \<Rightarrow> Inl no_is_time_available
      | Google g \<Rightarrow>
          (case resolved_end r s of
             Inl e \<Rightarrow> Inl e
           | Inr e \<Rightarrow> g_is_time_available g s e))"

definition svc_get_availability ::
  "CalendarService \<Rightarrow> datetime \<Rightarrow> datetime \<Rightarrow> int \<Rightarrow> exn + TimeSlot list" where
  "svc_get_availability svc s e d =
     (case svc of
        Mock cal \<Rightarrow> Inr (get_availability cal s e d)
      | Google g \<Rightarrow> g_get_availability g s e d)"

definition svc_book_appointment ::
  "Env \<Rightarrow> CalendarService \<Rightarrow> AppointmentRequest \<Rightarrow> datetime
    \<Rightarrow> exn + (BookingResponse \<times> CalendarService)" where
  "svc_book_appointment env svc r s =
     (case resolved_end r s of
        Inl e \<Rightarrow> Inl e
      | Inr e \<Rightarrow>
          (case svc of
             Mock cal \<Rightarrow>
               (case book_appointment (date_parser env) (now_ts env) cal (title r) s e
                       (description r) (attendees r) of
                  (resp, cal') \<Rightarrow> Inr (resp, Mock cal'))
           | Google g \<Rightarrow>
               (case g_book_appointment g (title r) s e (description r) (attendees r) of
                  Inl ex \<Rightarrow> Inl ex
                | Inr resp \<Rightarrow> Inr (resp, Google g))))"

section \<open>The draft merge (\<^verbatim>\<open>collect_appointment_details_with_ai\<close>, first half)\<close>

definition extract_info :: "Env \<Rightarrow> string \<Rightarrow> AppointmentRequest \<Rightarrow> ExtractedInfo option" where
  \<comment> \<open>\<open>None\<close>: there is no client, or the call raised and the \<^verbatim>\<open>except\<close> printed it\<close>
  "extract_info env user_message r =
     (case client env of
        None \<Rightarrow> None
      | Some f \<Rightarrow> (case f user_message r of Inl e \<Rightarrow> None | Inr x \<Rightarrow> Some x))"

definition apply_extracted :: "ExtractedInfo \<Rightarrow> AppointmentRequest \<Rightarrow> AppointmentRequest" where
  "apply_extracted x r =
     (let r1 = (case ex_start_time x of Some s \<Rightarrow> r\<lparr>start_date := Some s\<rparr> | None \<Rightarrow> r);
          r2 = (case ex_end_time x of Some e \<Rightarrow> r1\<lparr>end_date := Some e\<rparr> | None \<Rightarrow> r1);
          r3 = (case ex_duration x of
                  Some d \<Rightarrow> if d \<noteq> 0 then r2\<lparr>req_duration := Some d\<rparr> else r2
                | None \<Rightarrow> r2);
          r4 = (case ex_title x of
                  Some t \<Rightarrow> if t \<noteq> [] then r3\<lparr>title := Some t\<rparr> else r3
                | None \<Rightarrow> r3)
      in (case ex_description x of
            Some d \<Rightarrow> if d \<noteq> [] then r4\<lparr>description := Some d\<rparr> else r4
          | None \<Rightarrow> r4))"

definition fallback_start :: "DateParser \<Rightarrow> string \<Rightarrow> AppointmentRequest \<Rightarrow> AppointmentRequest" where
  \<comment> \<open>\<^verbatim>\<open>if not appointment_request.start_date:\<close> time range first, then a single instant\<close>
  "fallback_start dp user_message r =
     (if start_date r = None
      then (case parse_time_range dp user_message of
              Some (s, e) \<Rightarrow>
                r\<lparr>start_date := Some s, end_date := Some e,
                  req_duration := Some (whole_minutes (e - s))\<rparr>
            | None \<Rightarrow>
                (case parse_date_time dp user_message of
                   Some p \<Rightarrow> r\<lparr>start_date := Some p\<rparr>
                 | None \<Rightarrow> r))
      else r)"

definition falsy_duration :: "int option \<Rightarrow> bool" where
  \<comment> \<open>\<^verbatim>\<open>not duration\<close>: \<^verbatim>\<open>None\<close> or 0\<close>
  "falsy_duration d = (d = None \<or> d = Some 0)"

definition fallback_duration :: "DateParser \<Rightarrow> string \<Rightarrow> AppointmentRequest \<Rightarrow> AppointmentRequest" where
  "fallback_duration dp user_message r =
     (if falsy_duration (req_duration r)
      then (if \<not> falsy_duration (parse_duration dp user_message)
            then r\<lparr>req_duration := parse_duration dp user_message\<rparr>
            else if end_date r = None
            then r\<lparr>req_duration := Some 60\<rparr>
            else r)
      else r)"

definition meeting_keywords :: "(string \<times> string) list" where
  "meeting_keywords =
     [(''meeting'', ''Meeting''), (''call'', ''Call''), (''appointment'', ''Appointment''),
      (''interview'', ''Interview''), (''consultation'', ''Consultation'')]"

fun keyword_title :: "string \<Rightarrow> (string \<times> string) list \<Rightarrow> string option" where
  \<comment> \<open>the \<^verbatim>\<open>for keyword, title in meeting_keywords.items()\<close> with its \<^verbatim>\<open>break\<close>\<close>
  "keyword_title message_lower [] = None"
| "keyword_title message_lower ((keyword, t) # rest) =
     (if contains message_lower keyword then Some t else keyword_title message_lower rest)"

definition falsy_string :: "string option \<Rightarrow> bool" where
  "falsy_string s = (s = None \<or> s = Some [])"

definition default_title :: "string \<Rightarrow> AppointmentRequest \<Rightarrow> AppointmentRequest" where
  "default_title user_message r =
     (if falsy_string (title r)
      then (case keyword_title (lower user_message) meeting_keywords of
              Some t \<Rightarrow> r\<lparr>title := Some t\<rparr>
            | None \<Rightarrow> r\<lparr>title := Some ''Meeting''\<rparr>)
      else r)"

definition merge_fields ::
  "DateParser \<Rightarrow> string \<Rightarrow> ExtractedInfo option \<Rightarrow> AppointmentRequest \<Rightarrow> AppointmentRequest" where
  "merge_fields dp user_message extracted r =
     default_title user_message
       (fallback_duration dp user_message
          (fallback_start dp user_message
             (case extracted of Some x \<Rightarrow> apply_extracted x r | None \<Rightarrow> r)))"

definition derive_end :: "AppointmentRequest \<Rightarrow> AppointmentRequest" where
  \<comment> \<open>\<^verbatim>\<open>if has_start_time and has_duration: if not end_date: end_date = start + duration\<close>\<close>
  "derive_end r =
     (case (start_date r, req_duration r, end_date r) of
        (Some s, Some d, None) \<Rightarrow> r\<lparr>end_date := Some (s + minutes d)\<rparr>
      | _ \<Rightarrow> r)"

definition merge_draft ::
  "DateParser \<Rightarrow> string \<Rightarrow> ExtractedInfo option \<Rightarrow> AppointmentRequest option \<Rightarrow> AppointmentRequest" where
  \<comment> \<open>the draft that the node stores: a missing draft starts as \<^verbatim>\<open>AppointmentRequest(duration_minutes=60)\<close>\<close>
  "merge_draft dp user_message extracted draft =
     derive_end
       (merge_fields dp user_message extracted
          (case draft of Some r \<Rightarrow> r | None \<Rightarrow> new_request))"

section \<open>The dialogue nodes (\<^verbatim>\<open>app/agent/nodes.py\<close>)\<close>

definition none_has_no_attribute :: "string \<Rightarrow> exn" where
  "none_has_no_attribute a =
     AttributeError ([CHR 0x27] @ ''NoneType'' @ [CHR 0x27] @ '' object has no attribute ''
                     @ [CHR 0x27] @ a @ [CHR 0x27])"

definition suggest_alternative_slots :: "Env \<Rightarrow> CalendarService \<Rightarrow> AgentState \<Rightarrow> AgentState" where
  "suggest_alternative_slots env svc st =
     (case appointment_request st of
        None \<Rightarrow> st
      | Some r \<Rightarrow>
          let start_search = (case start_date r of Some s \<Rightarrow> s | None \<Rightarrow> now env);
              end_search = start_search + days 7;
              duration = (if falsy_duration (req_duration r) then 60 else the (req_duration r))
          in (case svc_get_availability svc start_search end_search duration of
                Inl e \<Rightarrow>
                  update_state COLLECTING_DETAILS
                    (add_assistant_message (AlternativesError (str_exn e)) st)
              | Inr slots \<Rightarrow>
                  if slots \<noteq> []
                  then
                    let st1 = st\<lparr>available_slots := take 5 slots\<rparr>;
                        slots_text =
                          map (\<lambda>slot. format_datetime (date_parser env) (start_time slot))
                            (available_slots st1);
                        formatted_requested =
                          (case start_date r of
                             Some s \<Rightarrow> format_datetime (date_parser env) s
                           | None \<Rightarrow> ''your requested time'')
                    in (case title r of
                          None \<Rightarrow>
                            update_state COLLECTING_DETAILS
                              (add_assistant_message
                                 (AlternativesError (str_exn (none_has_no_attribute ''lower'')))
                                 st1)
                        | Some t \<Rightarrow>
                            update_state SUGGESTING_SLOTS
                              (add_assistant_message
                                 (Alternatives formatted_requested (req_duration r) t slots_text)
                                 st1))
                  else
                    update_state COLLECTING_DETAILS
                      (add_assistant_message (NoAlternatives (req_duration r)) st)))"

definition has_start :: "AgentState \<Rightarrow> bool" where
  "has_start st =
     (case appointment_request st of None \<Rightarrow> False | Some r \<Rightarrow> start_date r \<noteq> None)"

text \<open>
  \<^verbatim>\<open>check_availability\<close> hands a state without a start instant to
  \<^verbatim>\<open>collect_appointment_details_with_ai\<close>, which in turn calls \<^verbatim>\<open>check_availability\<close>
  once the draft has a start instant and a duration.  The second call finds the start
  instant, so the recursion is at most three calls deep.
\<close>

function check_availability :: "Env \<Rightarrow> CalendarService \<Rightarrow> AgentState \<Rightarrow> AgentState"
  and collect_appointment_details_with_ai :: "Env \<Rightarrow> CalendarService \<Rightarrow> AgentState \<Rightarrow> AgentState"
where
  "check_availability env svc st =
     (if \<not> has_start st
      then collect_appointment_details_with_ai env svc st
      else
        let r = the (appointment_request st); s = the (start_date r);
            on_error = (\<lambda>e. suggest_alternative_slots env svc
                               (update_state SUGGESTING_SLOTS
                                  (add_assistant_message (CalendarError (str_exn e)) st)))
        in (case svc_is_time_available svc r s of
              Inl e \<Rightarrow> on_error e
            | Inr is_available \<Rightarrow>
                if is_available
                then (case title r of
                        None \<Rightarrow> on_error (none_has_no_attribute ''lower'')
                      | Some t \<Rightarrow>
                          update_state CONFIRMING_BOOKING
                            (add_assistant_message
                               (SlotAvailable (format_datetime (date_parser env) s)
                                  (req_duration r) t)
                               st))
                else suggest_alternative_slots env svc (update_state SUGGESTING_SLOTS st)))"
| "collect_appointment_details_with_ai env svc st =
     (case get_last_user_message st of
        None \<Rightarrow> st
      | Some user_message \<Rightarrow>
          if user_message = [] then st
          else
            let r0 = (case appointment_request st of Some r \<Rightarrow> r | None \<Rightarrow> new_request);
                r1 = merge_fields (date_parser env) user_message
                       (extract_info env user_message r0) r0;
                st1 = set_appointment_request r1 st
            in if start_date r1 \<noteq> None \<and> req_duration r1 \<noteq> None
               then check_availability env svc
                      (update_state CHECKING_AVAILABILITY
                         (set_appointment_request (derive_end r1) st1))
               else if start_date r1 \<noteq> None
               then update_state COLLECTING_DETAILS
                      (add_assistant_message
                         (AskDuration (format_datetime (date_parser env) (the (start_date r1))))
                         st1)
               else update_state COLLECTING_DETAILS (add_assistant_message AskTime st1))"
  by pat_completeness auto
termination
  by (relation "measure (\<lambda>x. case x of
                               Inl (env, svc, st) \<Rightarrow> (if has_start st then 0 else 2)
                             | Inr (env, svc, st) \<Rightarrow> 1)")
     (auto simp: has_start_def update_state_def set_appointment_request_def derive_end_def
           split: option.splits)

declare check_availability.simps [simp del]
declare collect_appointment_details_with_ai.simps [simp del]

text \<open>
  Slot selection.  \<^verbatim>\<open>available_slots[i]\<close> raises \<^verbatim>\<open>IndexError\<close> for an index that is
  not below the length of the list; the model keeps that case, so that the loop's safety is
  a statement about it.  The loop is \<^verbatim>\<open>for i in range(len(available_slots))\<close>.
\<close>

definition index_error :: exn where
  "index_error = OtherError ''list index out of range''"

definition py_index :: "'a list \<Rightarrow> nat \<Rightarrow> exn + 'a" where
  "py_index xs i = (if i < length xs then Inr (xs ! i) else Inl index_error)"

function select_slot_loop :: "string \<Rightarrow> TimeSlot list \<Rightarrow> nat \<Rightarrow> exn + TimeSlot option" where
  "select_slot_loop message_lower slots i =
     (if i < length slots
      then (if contains message_lower (''option '' @ str_of_nat (i + 1))
               \<or> contains message_lower (str_of_nat (i + 1))
            then (case py_index slots i of Inl e \<Rightarrow> Inl e | Inr slot \<Rightarrow> Inr (Some slot))
            else select_slot_loop message_lower slots (i + 1))
      else Inr None)"
  by pat_completeness auto
termination
  by (relation "measure (\<lambda>(m, slots, i). length slots - i)") auto

declare select_slot_loop.simps [simp del]

definition handle_slot_selection :: "Env \<Rightarrow> CalendarService \<Rightarrow> AgentState \<Rightarrow> exn + AgentState" where
  "handle_slot_selection env svc st =
     (case get_last_user_message st of
        None \<Rightarrow> Inr st
      | Some user_message \<Rightarrow>
          if user_message = [] then Inr st
          else if available_slots st = []
          then Inr (collect_appointment_details_with_ai env svc st)
          else
            (case select_slot_loop (lower user_message) (available_slots st) 0 of
               Inl e \<Rightarrow> Inl e
             | Inr None \<Rightarrow> Inr (collect_appointment_details_with_ai env svc st)
             | Inr (Some selected_slot) \<Rightarrow>
                 (case appointment_request st of
                    None \<Rightarrow> Inl (none_has_no_attribute ''start_date'')
                  | Some r \<Rightarrow>
                      let r' = r\<lparr>start_date := Some (start_time selected_slot),
                                 end_date := Some (end_time selected_slot)\<rparr>
                      in (case title r' of
                            None \<Rightarrow> Inl (none_has_no_attribute ''lower'')
                          | Some t \<Rightarrow>
                              Inr (update_state CONFIRMING_BOOKING
                                     (add_assistant_message
                                        (SlotChosen
                                           (format_datetime (date_parser env)
                                              (start_time selected_slot))
                                           (req_duration r') t)
                                        (set_appointment_request r' st)))))))"

definition nodes_book_appointment ::
  "Env \<Rightarrow> CalendarService \<Rightarrow> AgentState \<Rightarrow> AgentState \<times> CalendarService" where
  \<comment> \<open>\<^verbatim>\<open>ConversationNodes.book_appointment\<close>\<close>
  "nodes_book_appointment env svc st =
     (if \<not> has_start st
      then (collect_appointment_details_with_ai env svc st, svc)
      else
        let r = the (appointment_request st); s = the (start_date r)
        in (case svc_book_appointment env svc r s of
              Inl e \<Rightarrow>
                (update_state COLLECTING_DETAILS
                   (add_assistant_message (BookingError (str_exn e)) st), svc)
            | Inr (booking_result, svc') \<Rightarrow>
                if success booking_result
                then (update_state BOOKING_COMPLETE
                        (add_assistant_message
                           (Booked (title r) (format_datetime (date_parser env) s)
                              (req_duration r) (event_id booking_result))
                           st), svc')
                else (update_state COLLECTING_DETAILS
                        (add_assistant_message (BookingFailed (message booking_result)) st),
                      svc')))"

definition any_in :: "string list \<Rightarrow> string \<Rightarrow> bool" where
  \<comment> \<open>\<^verbatim>\<open>any(word in message_lower for word in words)\<close>\<close>
  "any_in words message_lower = list_ex (\<lambda>word. contains message_lower word) words"

definition confirm_booking ::
  "Env \<Rightarrow> CalendarService \<Rightarrow> AgentState \<Rightarrow> AgentState \<times> CalendarService" where
  "confirm_booking env svc st =
     (case get_last_user_message st of
        None \<Rightarrow> (st, svc)
      | Some user_message \<Rightarrow>
          if user_message = [] then (st, svc)
          else if any_in [''yes'', ''confirm'', ''book'', ''schedule'', ''ok'', ''sure'']
                    (lower user_message)
          then nodes_book_appointment env svc st
          else if any_in [''no'', ''cancel'', ''nevermind'', ''not now''] (lower user_message)
          then (update_state INITIAL (add_assistant_message Cancelled st), svc)
          else (update_state CONFIRMING_BOOKING (add_assistant_message Unclear st), svc))"

section \<open>The validator (\<^verbatim>\<open>app/utils/validators.py\<close>)\<close>

definition min_duration :: int where "min_duration = 15"
definition max_duration :: int where "max_duration = 240"
definition max_days_ahead :: int where "max_days_ahead = 90"

definition validate_appointment_request ::
  "datetime \<Rightarrow> AppointmentRequest \<Rightarrow> bool \<times> string option" where
  \<comment> \<open>the first argument is \<^verbatim>\<open>datetime.now()\<close>\<close>
  "validate_appointment_request now_dt request =
     (if start_date request = None \<and> end_date request = None
      then (False, Some ''Please specify a date and time for the appointment'')
      else if \<not> falsy_duration (req_duration request)
              \<and> the (req_duration request) < min_duration
      then (False, Some (''Duration must be at least '' @ str_of_int min_duration @ '' minutes''))
      else if \<not> falsy_duration (req_duration request)
              \<and> the (req_duration request) > max_duration
      then (False, Some (''Duration cannot exceed '' @ str_of_int max_duration @ '' minutes''))
      else if start_date request \<noteq> None \<and> end_date request \<noteq> None
      then (if the (start_date request) \<ge> the (end_date request)
            then (False, Some ''Start time must be before end time'')
            else if the (start_date request) > now_dt + days max_days_ahead
            then (False, Some (''Cannot book appointments more than ''
                               @ str_of_int max_days_ahead @ '' days in advance''))
            else if the (start_date request) < now_dt
            then (False, Some ''Cannot book appointments in the past'')
            else (True, None))
      else (True, None))"

definition is_business_hours :: "datetime \<Rightarrow> bool" where
  \<comment> \<open>\<^verbatim>\<open>DateParser.is_business_hours\<close>: a weekday, and \<^verbatim>\<open>time(9, 0) <= dt.time() < time(18, 0)\<close>\<close>
  "is_business_hours dt =
     (if weekday (date_of dt) \<ge> 5 then False
      else time_hm 9 0 \<le> time_of dt \<and> time_of dt < time_hm 18 0)"

section \<open>The conflict filter of the Google calendar (\<^verbatim>\<open>app/calendar/google_calendar.py\<close>)\<close>

text \<open>
  \<^verbatim>\<open>_filter_conflicting_slots(slots, events)\<close> reads each event's start and end as strings
  (\<^verbatim>\<open>dateTime\<close>, or \<^verbatim>\<open>date\<close> for an all-day event), skips an event whose start string
  has no \<^verbatim>\<open>T\<close>, and parses both strings with
  \<^verbatim>\<open>datetime.fromisoformat(s.replace('Z', '+00:00'))\<close>.  A string with a UTC offset parses to
  an aware datetime, one without to a naive datetime; Python refuses to order a naive and
  an aware datetime and raises \<^verbatim>\<open>TypeError\<close>.  The parse and the comparison sit in one
  \<^verbatim>\<open>try\<close> whose bare \<^verbatim>\<open>except\<close> continues with the next event.  The slots come from
  \<^verbatim>\<open>_generate_day_slots\<close>, which builds them with \<^verbatim>\<open>datetime.combine\<close> from a date and
  \<^verbatim>\<open>time(9, 0)\<close>: they are naive.  \<^verbatim>\<open>fromisoformat\<close> is library code and a parameter
  here; an aware datetime carries its instant in UTC.
\<close>

datatype pydatetime = Naive datetime | Aware datetime

fun py_less :: "pydatetime \<Rightarrow> pydatetime \<Rightarrow> exn + bool" where
  \<comment> \<open>\<^verbatim>\<open>a < b\<close> on datetimes\<close>
  "py_less (Naive a) (Naive b) = Inr (a < b)"
| "py_less (Aware a) (Aware b) = Inr (a < b)"
| "py_less a b = Inl (TypeError ''can't compare offset-naive and offset-aware datetimes'')"

record GoogleEvent =
  g_start_str :: string
  g_end_str :: string

definition replace_Z :: "string \<Rightarrow> string" where
  \<comment> \<open>\<^verbatim>\<open>s.replace('Z', '+00:00')\<close>\<close>
  "replace_Z s = concat (map (\<lambda>c. if c = CHR ''Z'' then ''+00:00'' else [c]) s)"

fun google_slot_is_available ::
  "(string \<Rightarrow> pydatetime option) \<Rightarrow> TimeSlot \<Rightarrow> GoogleEvent list \<Rightarrow> bool" where
  "google_slot_is_available fromisoformat slot [] = True"
| "google_slot_is_available fromisoformat slot (event # rest) =
     (if CHR ''T'' \<notin> set (g_start_str event)
      then google_slot_is_available fromisoformat slot rest
      else
        (case fromisoformat (replace_Z (g_start_str event)) of
           None \<Rightarrow> google_slot_is_available fromisoformat slot rest
         | Some event_start \<Rightarrow>
             (case fromisoformat (replace_Z (g_end_str event)) of
                None \<Rightarrow> google_slot_is_available fromisoformat slot rest
              | Some event_end \<Rightarrow>
                  (case py_less (Naive (start_time slot)) event_end of
                     Inl e \<Rightarrow> google_slot_is_available fromisoformat slot rest
                   | Inr False \<Rightarrow> google_slot_is_available fromisoformat slot rest
                   | Inr True \<Rightarrow>
                       (case py_less event_start (Naive (end_time slot)) of
                          Inl e \<Rightarrow> google_slot_is_available fromisoformat slot rest
                        | Inr False \<Rightarrow> google_slot_is_available fromisoformat slot rest
                        | Inr True \<Rightarrow> False)))))"

definition google_filter_conflicting_slots ::
  "(string \<Rightarrow> pydatetime option) \<Rightarrow> TimeSlot list \<Rightarrow> GoogleEvent list \<Rightarrow> TimeSlot list" where
  "google_filter_conflicting_slots fromisoformat slots google_events =
     filter (\<lambda>slot. google_slot_is_available fromisoformat slot google_events) slots"

section \<open>Closed form of the day's candidate slots\<close>

definition slot_at :: "date \<Rightarrow> int \<Rightarrow> nat \<Rightarrow> TimeSlot" where
  \<comment> \<open>the candidate number \<open>k\<close> of a day: it starts \<open>30 * k\<close> minutes after opening\<close>
  "slot_at day d k =
     \<lparr>start_time = combine day business_hours_start + minutes (30 * int k),
      end_time = combine day business_hours_start + minutes (30 * int k) + minutes d,
      duration_minutes = d\<rparr>"

definition day_slot_count :: "int \<Rightarrow> nat" where
  \<comment> \<open>how many candidates of \<open>d\<close> minutes end by closing time, 540 minutes after opening\<close>
  "day_slot_count d = (if d \<le> 540 then nat ((540 - d) div 30 + 1) else 0)"

section \<open>When a second merge differs from the first\<close>

definition range_overrides_extraction ::
  "DateParser \<Rightarrow> string \<Rightarrow> ExtractedInfo option \<Rightarrow> AppointmentRequest option \<Rightarrow> bool" where
  \<comment> \<open>the start instant comes from the time-range fallback, and the extraction result
      carries an end instant other than the range's end, or a non-zero duration other
      than the one the first merge stored\<close>
  "range_overrides_extraction dp user_message extracted draft =
     (case extracted of
        None \<Rightarrow> False
      | Some x \<Rightarrow>
          (case draft of Some r \<Rightarrow> start_date r | None \<Rightarrow> None) = None
          \<and> ex_start_time x = None
          \<and> (case parse_time_range dp user_message of
                None \<Rightarrow> False
              | Some (s, e) \<Rightarrow>
                  (ex_end_time x \<noteq> None \<and> ex_end_time x \<noteq> Some e)
                  \<or> (\<not> falsy_duration (ex_duration x)
                      \<and> ex_duration x
                          \<noteq> req_duration (merge_draft dp user_message extracted draft))))"

section \<open>Sample inputs\<close>

definition monday :: date where
  \<comment> \<open>2025-07-07, a Monday: \<^verbatim>\<open>date(2025, 7, 7).toordinal()\<close>\<close>
  "monday = 739439"

definition sample_parser :: DateParser where
  \<comment> \<open>a parser that finds nothing in the text\<close>
  "sample_parser =
     \<lparr>parse_time_range = (\<lambda>text. None), parse_date_time = (\<lambda>text. None),
      parse_duration = (\<lambda>text. None), format_datetime = (\<lambda>dt. ''<datetime>'')\<rparr>"

definition range_parser :: DateParser where
  \<comment> \<open>a parser that finds the time range 15:00 to 17:00 of the sample Monday\<close>
  "range_parser =
     \<lparr>parse_time_range =
        (\<lambda>text. Some (combine monday (time_hm 15 0), combine monday (time_hm 17 0))),
      parse_date_time = (\<lambda>text. None), parse_duration = (\<lambda>text. None),
      format_datetime = (\<lambda>dt. ''<datetime>'')\<rparr>"

definition sample_calendar :: MockCalendar where
  \<comment> \<open>the calendar as seeded on the Sunday before the sample Monday\<close>
  "sample_calendar = generate_mock_events (monday - 1)"

definition sample_env :: Env where
  \<comment> \<open>no language-model client; the clock reads Sunday noon\<close>
  "sample_env =
     \<lparr>client = None, date_parser = sample_parser,
      now = combine (monday - 1) (time_hm 12 0), now_ts = 1000\<rparr>"

definition late_env :: Env where
  \<comment> \<open>the same, with a clock that reads Tuesday noon\<close>
  "late_env =
     \<lparr>client = None, date_parser = sample_parser,
      now = combine (monday + 1) (time_hm 12 0), now_ts = 1000\<rparr>"

definition draft_at :: "int \<Rightarrow> int \<Rightarrow> int \<Rightarrow> AppointmentRequest" where
  \<comment> \<open>a draft titled Meeting on the sample Monday, from \<open>h\<close> o'clock for \<open>d\<close> minutes,
      with stored duration \<open>stored\<close>\<close>
  "draft_at h d stored =
     \<lparr>title = Some ''Meeting'', description = None,
      start_date = Some (combine monday (time_hm h 0)),
      end_date = Some (combine monday (time_hm h 0) + minutes d),
      req_duration = Some stored, attendees = []\<rparr>"

definition state_with :: "ConversationStateEnum \<Rightarrow> AppointmentRequest \<Rightarrow> string \<Rightarrow> AgentState" where
  "state_with cs r user_message =
     \<lparr>current_state = cs, appointment_request = Some r, available_slots = [],
      messages = [UserMessage user_message]\<rparr>"

definition empty_draft :: AppointmentRequest where
  "empty_draft =
     \<lparr>title = None, description = None, start_date = None, end_date = None,
      req_duration = None, attendees = []\<rparr>"

definition extracted_two_hours :: ExtractedInfo where
  \<comment> \<open>an extraction result with a start and an end instant two hours apart\<close>
  "extracted_two_hours =
     \<lparr>ex_start_time = Some (combine monday (time_hm 15 0)),
      ex_end_time = Some (combine monday (time_hm 17 0)),
      ex_duration = None, ex_title = None, ex_description = None\<rparr>"

definition extracted_duration_30 :: ExtractedInfo where
  \<comment> \<open>an extraction result that carries a duration only\<close>
  "extracted_duration_30 =
     \<lparr>ex_start_time = None, ex_end_time = None, ex_duration = Some 30, ex_title = None,
      ex_description = None\<rparr>"

definition sample_fromisoformat :: "string \<Rightarrow> pydatetime option" where
  \<comment> \<open>\<^verbatim>\<open>datetime.fromisoformat\<close> on four strings: with offset aware, without naive\<close>
  "sample_fromisoformat s =
     (if s = ''2025-07-07T10:00:00+00:00'' then Some (Aware (combine monday (time_hm 10 0)))
      else if s = ''2025-07-07T11:00:00+00:00'' then Some (Aware (combine monday (time_hm 11 0)))
      else if s = ''2025-07-07T10:00:00'' then Some (Naive (combine monday (time_hm 10 0)))
      else if s = ''2025-07-07T11:00:00'' then Some (Naive (combine monday (time_hm 11 0)))
      else None)"

definition ten_to_eleven :: TimeSlot where
  "ten_to_eleven =
     \<lparr>start_time = combine monday (time_hm 10 0), end_time = combine monday (time_hm 11 0),
      duration_minutes = 60\<rparr>"


definition one_offer :: AgentState where
  \<comment> \<open>one slot was offered and the user answers with the second option\<close>
  "one_offer =
     \<lparr>current_state = SUGGESTING_SLOTS, appointment_request = Some (draft_at 10 60 60),
      available_slots = [\<lparr>start_time = combine monday (time_hm 9 0),
                           end_time = combine monday (time_hm 10 0), duration_minutes = 60\<rparr>],
      messages = [UserMessage ''Option 2'']\<rparr>"

definition free_google :: GoogleCalendar where
  \<comment> \<open>a Google calendar that reports every interval free\<close>
  "free_google =
     \<lparr>g_is_time_available = (\<lambda>s e. Inr True),
      g_get_availability = (\<lambda>s e d. Inr []),
      g_book_appointment =
        (\<lambda>t s e d a. Inr \<lparr>success = True, message = ''Appointment booked successfully'',
                            event_id = Some ''abc123''\<rparr>)\<rparr>"

definition busy_google :: GoogleCalendar where
  \<comment> \<open>a Google calendar that reports every interval busy and finds no free slot\<close>
  "busy_google =
     \<lparr>g_is_time_available = (\<lambda>s e. Inr False),
      g_get_availability = (\<lambda>s e d. Inr []),
      g_book_appointment =
        (\<lambda>t s e d a. Inr \<lparr>success = False, message = ''busy'', event_id = None\<rparr>)\<rparr>"

definition stored_ids :: "CalendarService \<Rightarrow> string list" where
  \<comment> \<open>the keys of the in-memory calendar's store, in insertion order\<close>
  "stored_ids svc = (case svc of Mock cal \<Rightarrow> map fst (events cal) | Google g \<Rightarrow> [])"

definition titles :: "MockCalendar \<Rightarrow> (string \<times> string) list" where
  \<comment> \<open>the store as pairs of event id and title\<close>
  "titles cal = map (\<lambda>(k, ev). (k, ev_title ev)) (events cal)"

text \<open>
  Three calls within one second of the clock: a booking, the deletion of a seeded event
  and a second booking.
\<close>

definition first_booking :: "BookingResponse \<times> MockCalendar" where
  "first_booking =
     book_appointment sample_parser 1000 sample_calendar (Some ''First'')
       (combine monday (time_hm 16 0)) (combine monday (time_hm 17 0)) None []"

definition after_delete :: "bool \<times> MockCalendar" where
  "after_delete = delete_event (snd first_booking) ''mock_event_3''"

definition second_booking :: "BookingResponse \<times> MockCalendar" where
  "second_booking =
     book_appointment sample_parser 1000 (snd after_delete) (Some ''Second'')
       (combine monday (time_hm 12 0)) (combine monday (time_hm 13 0)) None []"

section \<open>Evaluation and arithmetic lemmas\<close>

lemmas time_defs =
  combine_def time_hm_def minutes_def days_def us_per_minute_def us_per_day_def
  business_hours_start_def business_hours_end_def date_of_def time_of_def weekday_def
  whole_minutes_def

lemmas eval_defs =
  get_availability_def availability_loop.simps generate_day_slots_def day_slots_loop.simps
  filter_conflicting_slots_def events_values_def generate_mock_events_def mock_event_def
  time_defs str_of_nat.simps str_of_int_def Let_def monday_def

lemma day_slots_closed:
  "day_slots_loop c e d = map (\<lambda>k. \<lparr>start_time = c + minutes (30 * int k), end_time = c + minutes (30 * int k) + minutes d, duration_minutes = d\<rparr>)
      [0..<(if c + minutes d \<le> e then nat ((e - minutes d - c) div minutes 30 + 1) else 0)]"
proof (induction c e d rule: day_slots_loop.induct)
  case (1 c e d)
  show ?case
  proof (cases "c + minutes d \<le> e")
    case False
    then show ?thesis by (simp add: day_slots_loop.simps [of c e d])
  next
    case True
    let ?n = "nat ((e - minutes d - c) div minutes 30 + 1)"
    let ?n' = "(if c + minutes 30 + minutes d \<le> e then nat ((e - minutes d - (c + minutes 30)) div minutes 30 + 1) else 0)"
    have n: "?n = Suc ?n'" using True
      by (auto simp: minutes_def us_per_minute_def)
    have shift: "minutes (30 * int (Suc k)) = minutes 30 + minutes (30 * int k)" for k
      by (simp add: minutes_def algebra_simps)
    have "day_slots_loop c e d = \<lparr>start_time = c, end_time = c + minutes d, duration_minutes = d\<rparr> # day_slots_loop (c + minutes 30) e d"
      using True by (simp add: day_slots_loop.simps [of c e d])
    also have "day_slots_loop (c + minutes 30) e d = map (\<lambda>k. \<lparr>start_time = c + minutes 30 + minutes (30 * int k), end_time = c + minutes 30 + minutes (30 * int k) + minutes d, duration_minutes = d\<rparr>) [0..<?n']"
      using "1.IH" [OF True] by simp
    also have "\<dots> = map (\<lambda>k. \<lparr>start_time = c + minutes (30 * int k), end_time = c + minutes (30 * int k) + minutes d, duration_minutes = d\<rparr>) (map Suc [0..<?n'])"
      by (simp add: shift add.assoc o_def del: of_nat_Suc)
    also have "\<lparr>start_time = c, end_time = c + minutes d, duration_minutes = d\<rparr> # \<dots> = map (\<lambda>k. \<lparr>start_time = c + minutes (30 * int k), end_time = c + minutes (30 * int k) + minutes d, duration_minutes = d\<rparr>) [0..<Suc ?n']"
      by (simp add: minutes_def map_Suc_upt upt_conv_Cons del: upt_Suc)
    finally show ?thesis using True n by simp
  qed
qed

lemma generate_day_slots_closed:
  "generate_day_slots day d = map (slot_at day d) [0..<day_slot_count d]"
proof -
  let ?c = "combine day business_hours_start" and ?e = "combine day business_hours_end"
  have guard: "(?c + minutes d \<le> ?e) = (d \<le> 540)"
    by (simp add: time_defs)
  have "?e - minutes d - ?c = 60000000 * (540 - d)"
    by (simp add: time_defs algebra_simps)
  then have "(?e - minutes d - ?c) div minutes 30 = (60000000 * (540 - d)) div (60000000 * 30)"
    by (simp add: minutes_def us_per_minute_def)
  also have "\<dots> = (540 - d) div 30"
    by (rule div_mult_mult1) simp
  finally have cnt: "(if ?c + minutes d \<le> ?e then nat ((?e - minutes d - ?c) div minutes 30 + 1) else 0) = day_slot_count d"
    using guard by (simp add: day_slot_count_def)
  show ?thesis
    unfolding generate_day_slots_def day_slots_closed cnt
    by (simp add: slot_at_def [abs_def])
qed

lemma day_slot_count_bound:
  assumes "k < day_slot_count d"
  shows "30 * int k + d \<le> 540"
proof -
  from assms have d: "d \<le> 540" by (simp add: day_slot_count_def split: if_splits)
  with assms have "int k < (540 - d) div 30 + 1" by (simp add: day_slot_count_def)
  then have "int k \<le> (540 - d) div 30" by simp
  then have "30 * int k \<le> 30 * ((540 - d) div 30)" by simp
  also have "\<dots> \<le> 540 - d" by simp
  finally show ?thesis by simp
qed

lemma day_slot_count_complete:
  assumes "30 * int k + d \<le> 540"
  shows "k < day_slot_count d"
proof -
  from assms have d: "d \<le> 540" by simp
  from assms have "30 * int k \<le> 540 - d" by simp
  then have "int k \<le> (540 - d) div 30" by simp
  with d show ?thesis by (simp add: day_slot_count_def)
qed

lemma date_of_combine:
  "0 \<le> t \<Longrightarrow> t < us_per_day \<Longrightarrow> date_of (combine day t) = day \<and> time_of (combine day t) = t"
  by (simp add: date_of_def time_of_def combine_def us_per_day_def)

lemma availability_loop_set:
  "slot \<in> set (availability_loop cal c e d) \<longleftrightarrow>
     (\<exists>day. c \<le> day \<and> day \<le> e \<and> weekday day < 5
            \<and> slot \<in> set (filter_conflicting_slots cal (generate_day_slots day d)))"
proof (induction cal c e d rule: availability_loop.induct)
  case (1 cal c e d)
  let ?P = "\<lambda>day. weekday day < 5
              \<and> slot \<in> set (filter_conflicting_slots cal (generate_day_slots day d))"
  show ?case
  proof (cases "c \<le> e")
    case False
    then show ?thesis by (auto simp: availability_loop.simps [of cal c e d])
  next
    case True
    have split: "(\<exists>day. c \<le> day \<and> day \<le> e \<and> ?P day)
                  = (?P c \<or> (\<exists>day. c + 1 \<le> day \<and> day \<le> e \<and> ?P day))"
    proof
      assume "\<exists>day. c \<le> day \<and> day \<le> e \<and> ?P day"
      then obtain day where day: "c \<le> day" "day \<le> e" "?P day" by blast
      show "?P c \<or> (\<exists>day. c + 1 \<le> day \<and> day \<le> e \<and> ?P day)"
      proof (cases "day = c")
        case True
        with day show ?thesis by blast
      next
        case False
        with day have "c + 1 \<le> day" by simp
        with day show ?thesis by blast
      qed
    next
      assume "?P c \<or> (\<exists>day. c + 1 \<le> day \<and> day \<le> e \<and> ?P day)"
      then show "\<exists>day. c \<le> day \<and> day \<le> e \<and> ?P day"
      proof
        assume "?P c"
        with True show ?thesis by blast
      next
        assume "\<exists>day. c + 1 \<le> day \<and> day \<le> e \<and> ?P day"
        then obtain day where "c + 1 \<le> day" "day \<le> e" "?P day" by blast
        then have "c \<le> day \<and> day \<le> e \<and> ?P day" by simp
        then show ?thesis by blast
      qed
    qed
    show ?thesis
    proof (cases "weekday c \<ge> 5")
      case wk: True
      then have notP: "\<not> ?P c" by simp
      have step: "slot \<in> set (availability_loop cal c e d)
                  \<longleftrightarrow> slot \<in> set (availability_loop cal (c + 1) e d)"
        using True wk by (simp add: availability_loop.simps [of cal c e d])
      from notP step "1.IH"(1) [OF True wk] split show ?thesis by blast
    next
      case wk: False
      then have step: "slot \<in> set (availability_loop cal c e d)
                 \<longleftrightarrow> ?P c \<or> slot \<in> set (availability_loop cal (c + 1) e d)"
        using True by (simp add: availability_loop.simps [of cal c e d])
      from step "1.IH"(2) [OF True wk] split show ?thesis by blast
    qed
  qed
qed

lemma slot_is_available_iff:
  "slot_is_available slot evs \<longleftrightarrow>
     (\<forall>ev \<in> set evs. \<not> (start_time slot < ev_end_time ev \<and> end_time slot > ev_start_time ev))"
  by (induction evs) auto

lemma filter_conflicting_slots_set:
  "slot \<in> set (filter_conflicting_slots cal slots) \<longleftrightarrow>
     slot \<in> set slots \<and> slot_is_available slot (events_values cal)"
  by (simp add: filter_conflicting_slots_def)

lemma whole_minutes_minutes: "whole_minutes (minutes d) = d"
proof -
  have "- (d * 60000000) div 60000000 = - d"
    by (metis minus_mult_left nonzero_mult_div_cancel_right zero_neq_numeral)
  then show ?thesis
    by (simp add: whole_minutes_def minutes_def us_per_minute_def)
qed

lemma slot_at_business_hours:
  assumes d: "0 < d" and k: "k < day_slot_count d" and wk: "weekday day < 5"
  shows "date_of (start_time (slot_at day d k)) = day"
    and "is_business_hours (start_time (slot_at day d k))"
    and "end_time (slot_at day d k) \<le> combine day business_hours_end"
proof -
  from k have b: "30 * int k + d \<le> 540" by (rule day_slot_count_bound)
  let ?t = "business_hours_start + minutes (30 * int k)"
  have st: "start_time (slot_at day d k) = combine day ?t"
    by (simp add: slot_at_def combine_def)
  have lo: "0 \<le> ?t" and lo9: "time_hm 9 0 \<le> ?t"
    by (simp_all add: business_hours_start_def time_hm_def minutes_def us_per_minute_def)
  have hi18: "?t < time_hm 18 0" using b d
    by (simp add: business_hours_start_def time_hm_def minutes_def us_per_minute_def)
  then have hi: "?t < us_per_day"
    by (simp add: time_hm_def us_per_minute_def us_per_day_def)
  from date_of_combine [OF lo hi, of day] st
  show day: "date_of (start_time (slot_at day d k)) = day" by simp
  from date_of_combine [OF lo hi, of day] st
  have "time_of (start_time (slot_at day d k)) = ?t" by simp
  with day wk lo9 hi18 show "is_business_hours (start_time (slot_at day d k))"
    by (simp add: is_business_hours_def)
  show "end_time (slot_at day d k) \<le> combine day business_hours_end" using b
    by (simp add: slot_at_def combine_def business_hours_start_def business_hours_end_def
        time_hm_def minutes_def us_per_minute_def)
qed


lemmas book_eval =
  book_appointment_def delete_event_def new_event_id_def eval_defs sample_parser_def
  sample_calendar_def

lemmas node_eval =
  check_availability.simps collect_appointment_details_with_ai.simps has_start_def
  svc_is_time_available_def svc_get_availability_def svc_book_appointment_def
  suggest_alternative_slots_def nodes_book_appointment_def confirm_booking_def
  update_state_def add_assistant_message_def set_appointment_request_def
  get_last_user_message_def falsy_duration_def any_in_def lower_def lower_char_def
  no_is_time_available_def resolved_end_def
  sample_env_def late_env_def draft_at_def state_with_def stored_ids_def

lemmas validator_eval =
  validate_appointment_request_def min_duration_def max_duration_def max_days_ahead_def
  falsy_duration_def str_of_int_def str_of_nat.simps

lemmas merge_eval =
  merge_draft_def merge_fields_def default_title_def fallback_duration_def
  fallback_start_def apply_extracted_def falsy_duration_def falsy_string_def derive_end_def
  new_request_def meeting_keywords_def lower_def lower_char_def Let_def whole_minutes_def

subsection \<open>The store of the in-memory calendar\<close>

lemma length_alist_update:
  "length (AList.update k v al) = (if k \<in> fst ` set al then length al else Suc (length al))"
  by (induction al) auto

lemma first_booking_eval:
  "success (fst first_booking) \<and> event_id (fst first_booking) = Some ''event_4_1000''
   \<and> snd first_booking = \<lparr>events = events sample_calendar @
        [(''event_4_1000'', \<lparr>ev_id = ''event_4_1000'', ev_title = ''First'',
           ev_description = Some ''Appointment booked via AI assistant'',
           ev_start_time = combine monday (time_hm 16 0),
           ev_end_time = combine monday (time_hm 17 0),
           ev_location = None, ev_attendees = []\<rparr>)]\<rparr>"
  by (simp add: first_booking_def book_eval)

lemma after_delete_eval:
  "fst after_delete \<and> titles (snd after_delete) =
     [(''mock_event_0'', ''Team Meeting''), (''mock_event_1'', ''Client Call''),
      (''mock_event_2'', ''Lunch Break''), (''event_4_1000'', ''First'')]
   \<and> snd after_delete = \<lparr>events = take 3 (events sample_calendar) @
        [(''event_4_1000'', \<lparr>ev_id = ''event_4_1000'', ev_title = ''First'',
           ev_description = Some ''Appointment booked via AI assistant'',
           ev_start_time = combine monday (time_hm 16 0),
           ev_end_time = combine monday (time_hm 17 0),
           ev_location = None, ev_attendees = []\<rparr>)]\<rparr>"
  by (simp add: after_delete_def first_booking_eval titles_def delete_event_def
        sample_calendar_def generate_mock_events_def mock_event_def str_of_nat.simps)

subsection \<open>The stages of the merge, field by field\<close>

lemma apply_extracted_fields:
  "start_date (apply_extracted x r)
     = (case ex_start_time x of Some s \<Rightarrow> Some s | None \<Rightarrow> start_date r)"
  "end_date (apply_extracted x r)
     = (case ex_end_time x of Some e \<Rightarrow> Some e | None \<Rightarrow> end_date r)"
  "req_duration (apply_extracted x r)
     = (if falsy_duration (ex_duration x) then req_duration r else ex_duration x)"
  "title (apply_extracted x r) = (if falsy_string (ex_title x) then title r else ex_title x)"
  "description (apply_extracted x r)
     = (if falsy_string (ex_description x) then description r else ex_description x)"
  "attendees (apply_extracted x r) = attendees r"
  "AppointmentRequest.more (apply_extracted x r) = AppointmentRequest.more r"
  by (auto simp: apply_extracted_def Let_def falsy_duration_def falsy_string_def
        split: option.splits)

lemma fallback_start_fields:
  "start_date (fallback_start dp m r) =
     (case start_date r of
        Some s \<Rightarrow> Some s
      | None \<Rightarrow> (case parse_time_range dp m of
                   Some (s, e) \<Rightarrow> Some s
                 | None \<Rightarrow> parse_date_time dp m))"
  "end_date (fallback_start dp m r) =
     (case start_date r of
        Some s \<Rightarrow> end_date r
      | None \<Rightarrow> (case parse_time_range dp m of Some (s, e) \<Rightarrow> Some e | None \<Rightarrow> end_date r))"
  "req_duration (fallback_start dp m r) =
     (case start_date r of
        Some s \<Rightarrow> req_duration r
      | None \<Rightarrow> (case parse_time_range dp m of
                   Some (s, e) \<Rightarrow> Some (whole_minutes (e - s))
                 | None \<Rightarrow> req_duration r))"
  "title (fallback_start dp m r) = title r"
  "description (fallback_start dp m r) = description r"
  "attendees (fallback_start dp m r) = attendees r"
  "AppointmentRequest.more (fallback_start dp m r) = AppointmentRequest.more r"
  by (auto simp: fallback_start_def split: option.splits)

lemma fallback_duration_fields:
  "start_date (fallback_duration dp m r) = start_date r"
  "end_date (fallback_duration dp m r) = end_date r"
  "req_duration (fallback_duration dp m r) =
     (if falsy_duration (req_duration r)
      then (if \<not> falsy_duration (parse_duration dp m) then parse_duration dp m
            else if end_date r = None then Some 60 else req_duration r)
      else req_duration r)"
  "title (fallback_duration dp m r) = title r"
  "description (fallback_duration dp m r) = description r"
  "attendees (fallback_duration dp m r) = attendees r"
  "AppointmentRequest.more (fallback_duration dp m r) = AppointmentRequest.more r"
  by (auto simp: fallback_duration_def)

lemma default_title_fields:
  "start_date (default_title m r) = start_date r"
  "end_date (default_title m r) = end_date r"
  "req_duration (default_title m r) = req_duration r"
  "title (default_title m r) =
     (if falsy_string (title r)
      then (case keyword_title (lower m) meeting_keywords of
              Some t \<Rightarrow> Some t
            | None \<Rightarrow> Some ''Meeting'')
      else title r)"
  "description (default_title m r) = description r"
  "attendees (default_title m r) = attendees r"
  "AppointmentRequest.more (default_title m r) = AppointmentRequest.more r"
  by (auto simp: default_title_def split: option.splits)

lemma derive_end_fields:
  "start_date (derive_end r) = start_date r"
  "end_date (derive_end r) =
     (case end_date r of
        Some e \<Rightarrow> Some e
      | None \<Rightarrow> (case start_date r of
                   None \<Rightarrow> None
                 | Some s \<Rightarrow> (case req_duration r of
                               None \<Rightarrow> None
                             | Some d \<Rightarrow> Some (s + minutes d))))"
  "req_duration (derive_end r) = req_duration r"
  "title (derive_end r) = title r"
  "description (derive_end r) = description r"
  "attendees (derive_end r) = attendees r"
  "AppointmentRequest.more (derive_end r) = AppointmentRequest.more r"
  by (auto simp: derive_end_def split: option.splits)

lemmas stage_fields =
  apply_extracted_fields fallback_start_fields fallback_duration_fields
  default_title_fields derive_end_fields

lemma fallback_start_known: "start_date r \<noteq> None \<Longrightarrow> fallback_start dp m r = r"
  by (auto simp: fallback_start_def)

lemma merge_draft_has_title: "title (merge_draft dp user_message extracted draft) \<noteq> None"
  by (cases extracted)
     (auto simp: merge_draft_def merge_fields_def stage_fields falsy_string_def
        split: option.splits)

subsection \<open>Merging twice\<close>

lemma merge_twice_title:
  "title (merge_draft dp msg ext (Some (merge_draft dp msg ext draft)))
     = title (merge_draft dp msg ext draft)"
  by (cases ext)
     (auto simp: merge_draft_def merge_fields_def stage_fields falsy_string_def
        split: option.splits)

lemma merge_twice_description:
  "description (merge_draft dp msg ext (Some (merge_draft dp msg ext draft)))
     = description (merge_draft dp msg ext draft)"
  by (cases ext)
     (auto simp: merge_draft_def merge_fields_def stage_fields falsy_string_def
        split: option.splits)

lemma merge_twice_attendees:
  "attendees (merge_draft dp msg ext (Some (merge_draft dp msg ext draft)))
     = attendees (merge_draft dp msg ext draft)"
  by (cases ext) (auto simp: merge_draft_def merge_fields_def stage_fields split: option.splits)

lemma merge_twice_more:
  "AppointmentRequest.more (merge_draft dp msg ext (Some (merge_draft dp msg ext draft)))
     = AppointmentRequest.more (merge_draft dp msg ext draft)"
  by (cases ext) (auto simp: merge_draft_def merge_fields_def stage_fields split: option.splits)

lemma merge_twice_start:
  "start_date (merge_draft dp msg ext (Some (merge_draft dp msg ext draft)))
     = start_date (merge_draft dp msg ext draft)"
  by (cases ext) (auto simp: merge_draft_def merge_fields_def stage_fields split: option.splits)

lemma merge_draft_start_of_draft:
  "(case draft of Some r \<Rightarrow> start_date r | None \<Rightarrow> None)
     = start_date (case draft of Some r \<Rightarrow> r | None \<Rightarrow> new_request)"
  by (simp add: new_request_def split: option.splits)

lemma twice_no_ext:
  "end_date (derive_end (merge_fields dp msg None (derive_end (merge_fields dp msg None r0))))
     = end_date (derive_end (merge_fields dp msg None r0))
   \<and> req_duration
       (derive_end (merge_fields dp msg None (derive_end (merge_fields dp msg None r0))))
     = req_duration (derive_end (merge_fields dp msg None r0))"
  by (cases "start_date r0"; cases "end_date r0"; cases "req_duration r0";
      cases "parse_time_range dp msg"; cases "parse_date_time dp msg";
      cases "parse_duration dp msg")
     (auto simp: merge_fields_def stage_fields falsy_duration_def)

lemma twice_ext_start_known:
  assumes "start_date r0 \<noteq> None \<or> ex_start_time x \<noteq> None"
  shows "end_date (derive_end (merge_fields dp msg (Some x)
                     (derive_end (merge_fields dp msg (Some x) r0))))
     = end_date (derive_end (merge_fields dp msg (Some x) r0))
   \<and> req_duration (derive_end (merge_fields dp msg (Some x)
                       (derive_end (merge_fields dp msg (Some x) r0))))
     = req_duration (derive_end (merge_fields dp msg (Some x) r0))"
proof -
  have s1: "start_date (apply_extracted x r0) \<noteq> None"
    using assms by (auto simp: stage_fields split: option.splits)
  have s2: "start_date (apply_extracted x
              (derive_end (default_title msg
                 (fallback_duration dp msg (apply_extracted x r0))))) \<noteq> None"
    using assms by (auto simp: stage_fields split: option.splits)
  show ?thesis
    unfolding merge_fields_def option.case fallback_start_known [OF s1]
      fallback_start_known [OF s2]
    using s1
    by (cases "end_date r0"; cases "req_duration r0"; cases "parse_duration dp msg";
        cases "ex_end_time x"; cases "ex_duration x")
       (auto simp: stage_fields falsy_duration_def split: option.splits)
qed

lemma twice_ext_no_range:
  assumes "start_date r0 = None" "ex_start_time x = None" "parse_time_range dp msg = None"
  shows "end_date (derive_end (merge_fields dp msg (Some x)
                     (derive_end (merge_fields dp msg (Some x) r0))))
     = end_date (derive_end (merge_fields dp msg (Some x) r0))
   \<and> req_duration (derive_end (merge_fields dp msg (Some x)
                       (derive_end (merge_fields dp msg (Some x) r0))))
     = req_duration (derive_end (merge_fields dp msg (Some x) r0))"
  using assms
  by (cases "end_date r0"; cases "req_duration r0"; cases "parse_duration dp msg";
      cases "ex_end_time x"; cases "ex_duration x"; cases "parse_date_time dp msg")
     (auto simp: merge_fields_def stage_fields falsy_duration_def split: option.splits)

lemma twice_ext_range:
  assumes "start_date r0 = None" "ex_start_time x = None"
    "parse_time_range dp msg = Some (s, e)"
  shows "(end_date (derive_end (merge_fields dp msg (Some x)
                      (derive_end (merge_fields dp msg (Some x) r0))))
            = end_date (derive_end (merge_fields dp msg (Some x) r0))
          \<and> req_duration (derive_end (merge_fields dp msg (Some x)
                              (derive_end (merge_fields dp msg (Some x) r0))))
            = req_duration (derive_end (merge_fields dp msg (Some x) r0)))
   \<longleftrightarrow> \<not> ((ex_end_time x \<noteq> None \<and> ex_end_time x \<noteq> Some e)
              \<or> (\<not> falsy_duration (ex_duration x)
                  \<and> ex_duration x
                      \<noteq> req_duration (derive_end (merge_fields dp msg (Some x) r0))))"
  using assms
  by (cases "parse_duration dp msg"; cases "ex_end_time x"; cases "ex_duration x")
     (auto simp: merge_fields_def stage_fields falsy_duration_def split: option.splits)

lemma merge_twice_end_duration:
  "(end_date (merge_draft dp msg ext (Some (merge_draft dp msg ext draft)))
      = end_date (merge_draft dp msg ext draft)
    \<and> req_duration (merge_draft dp msg ext (Some (merge_draft dp msg ext draft)))
      = req_duration (merge_draft dp msg ext draft))
   \<longleftrightarrow> \<not> range_overrides_extraction dp msg ext draft"
proof -
  define r0 where "r0 = (case draft of Some r \<Rightarrow> r | None \<Rightarrow> new_request)"
  have once: "merge_draft dp msg ext draft = derive_end (merge_fields dp msg ext r0)"
    by (simp add: merge_draft_def r0_def)
  have twice: "merge_draft dp msg ext (Some (merge_draft dp msg ext draft))
               = derive_end (merge_fields dp msg ext (derive_end (merge_fields dp msg ext r0)))"
    by (simp add: merge_draft_def r0_def)
  have st: "(case draft of Some r \<Rightarrow> start_date r | None \<Rightarrow> None) = start_date r0"
    by (simp add: r0_def merge_draft_start_of_draft)
  show ?thesis
  proof (cases ext)
    case None
    then show ?thesis
      unfolding twice unfolding once using twice_no_ext [of dp msg r0]
      by (simp add: range_overrides_extraction_def)
  next
    case (Some x)
    show ?thesis
    proof (cases "start_date r0 \<noteq> None \<or> ex_start_time x \<noteq> None")
      case True
      then have "\<not> range_overrides_extraction dp msg ext draft"
        by (auto simp: range_overrides_extraction_def Some st)
      with twice_ext_start_known [OF True, of dp msg] show ?thesis
        unfolding twice unfolding once unfolding Some by simp
    next
      case False
      then have none: "start_date r0 = None" "ex_start_time x = None" by simp_all
      show ?thesis
      proof (cases "parse_time_range dp msg")
        case None
        then have "\<not> range_overrides_extraction dp msg ext draft"
          by (simp add: range_overrides_extraction_def Some)
        with twice_ext_no_range [OF none None] show ?thesis
          unfolding twice unfolding once unfolding Some by simp
      next
        case ptr: (Some se)
        obtain s e where se: "se = (s, e)" by (cases se)
        have "range_overrides_extraction dp msg ext draft
              \<longleftrightarrow> ((ex_end_time x \<noteq> None \<and> ex_end_time x \<noteq> Some e)
                   \<or> (\<not> falsy_duration (ex_duration x)
                       \<and> ex_duration x
                           \<noteq> req_duration (derive_end (merge_fields dp msg (Some x) r0))))"
          using none
          by (simp add: range_overrides_extraction_def Some st ptr se once [unfolded Some])
        with twice_ext_range [OF none ptr [unfolded se]] show ?thesis
          unfolding twice unfolding once unfolding Some by simp
      qed
    qed
  qed
qed

subsection \<open>The nodes\<close>

lemma select_slot_loop_in_range:
  "\<exists>r. select_slot_loop message_lower slots i = Inr r
       \<and> (\<forall>slot. r = Some slot \<longrightarrow> (\<exists>j. i \<le> j \<and> j < length slots \<and> slot = slots ! j))"
proof (induction message_lower slots i rule: select_slot_loop.induct)
  case (1 message_lower slots i)
  show ?case
  proof (cases "i < length slots")
    case False
    then show ?thesis by (simp add: select_slot_loop.simps [of message_lower slots i])
  next
    case True
    show ?thesis
    proof (cases "contains message_lower (''option '' @ str_of_nat (i + 1))
                  \<or> contains message_lower (str_of_nat (i + 1))")
      case match: True
      with True have "select_slot_loop message_lower slots i = Inr (Some (slots ! i))"
        by (simp add: select_slot_loop.simps [of message_lower slots i] py_index_def)
      with True show ?thesis by auto
    next
      case nomatch: False
      with True have eq: "select_slot_loop message_lower slots i
                          = select_slot_loop message_lower slots (i + 1)"
        by (simp add: select_slot_loop.simps [of message_lower slots i])
      from "1.IH" [OF True nomatch] obtain r where
        r: "select_slot_loop message_lower slots (i + 1) = Inr r"
        and rng: "\<forall>slot. r = Some slot
                    \<longrightarrow> (\<exists>j. i + 1 \<le> j \<and> j < length slots \<and> slot = slots ! j)"
        by blast
      from rng have "\<forall>slot. r = Some slot
                       \<longrightarrow> (\<exists>j. i \<le> j \<and> j < length slots \<and> slot = slots ! j)"
        by (metis add_leD1)
      with r eq show ?thesis by simp
    qed
  qed
qed

lemma option_2_of_one: "select_slot_loop ''option 2'' [slot] 0 = Inr None"
  by (simp add: select_slot_loop.simps str_of_nat.simps)

lemma suggest_alternative_slots_request:
  "appointment_request (suggest_alternative_slots env svc st) = appointment_request st"
  by (auto simp: suggest_alternative_slots_def Let_def update_state_def
        add_assistant_message_def split: option.splits sum.splits)

lemma suggest_alternative_slots_outcome:
  assumes r: "appointment_request st = Some r" and t: "title r = Some t"
  shows "current_state (suggest_alternative_slots env svc st) =
           (case svc_get_availability svc
                   (case start_date r of Some s \<Rightarrow> s | None \<Rightarrow> now env)
                   ((case start_date r of Some s \<Rightarrow> s | None \<Rightarrow> now env) + days 7)
                   (if falsy_duration (req_duration r) then 60 else the (req_duration r)) of
              Inl e \<Rightarrow> COLLECTING_DETAILS
            | Inr slots \<Rightarrow> if slots \<noteq> [] then SUGGESTING_SLOTS else COLLECTING_DETAILS)"
  using r t
  by (auto simp: suggest_alternative_slots_def Let_def update_state_def
        add_assistant_message_def split: sum.splits)

lemma suggest_alternative_slots_state:
  assumes "appointment_request st \<noteq> None"
  shows "current_state (suggest_alternative_slots env svc st) = SUGGESTING_SLOTS
       \<or> current_state (suggest_alternative_slots env svc st) = COLLECTING_DETAILS"
  using assms
  by (auto simp: suggest_alternative_slots_def Let_def update_state_def
        add_assistant_message_def split: option.splits sum.splits)

lemma check_availability_request:
  assumes "has_start st"
  shows "appointment_request (check_availability env svc st) = appointment_request st"
  using assms
  by (auto simp: check_availability.simps [of env svc st] Let_def
        suggest_alternative_slots_request update_state_def add_assistant_message_def
        split: sum.splits option.splits)

text \<open>
  The in-memory calendar has no single-slot check: whatever the draft's interval,
  \<^verbatim>\<open>check_availability\<close> takes the \<^verbatim>\<open>except\<close> branch and never reaches
  \<^verbatim>\<open>CONFIRMING_BOOKING\<close>.
\<close>

lemma check_availability_mock:
  assumes r: "appointment_request st = Some r" and s: "start_date r = Some s"
  shows "check_availability env (Mock cal) st
         = suggest_alternative_slots env (Mock cal)
             (update_state SUGGESTING_SLOTS
                (add_assistant_message (CalendarError (str_exn no_is_time_available)) st))
       \<and> current_state (check_availability env (Mock cal) st) \<noteq> CONFIRMING_BOOKING"
proof -
  have eq: "check_availability env (Mock cal) st
         = suggest_alternative_slots env (Mock cal)
             (update_state SUGGESTING_SLOTS
                (add_assistant_message (CalendarError (str_exn no_is_time_available)) st))"
    using r s
    by (simp add: check_availability.simps [of env "Mock cal" st] has_start_def
          svc_is_time_available_def)
  have "appointment_request (update_state SUGGESTING_SLOTS
          (add_assistant_message (CalendarError (str_exn no_is_time_available)) st)) \<noteq> None"
    using r by (simp add: update_state_def add_assistant_message_def)
  from suggest_alternative_slots_state [OF this, of env "Mock cal"] eq
  show ?thesis by auto
qed

text \<open>
  The duration that a merge stores when the start instant comes from the time range of the
  utterance: the range's length in whole minutes; when that length is zero, the duration
  phrase of the utterance if it has one, and 0 otherwise.
\<close>

lemma merge_draft_range_duration:
  assumes "(case draft of Some r \<Rightarrow> start_date r | None \<Rightarrow> None) = None"
    and "ex_start_time x = None"
    and "parse_time_range dp user_message = Some (s, e)"
  shows "req_duration (merge_draft dp user_message (Some x) draft) =
           (if whole_minutes (e - s) \<noteq> 0 then Some (whole_minutes (e - s))
            else if \<not> falsy_duration (parse_duration dp user_message)
            then parse_duration dp user_message
            else Some 0)"
proof -
  let ?r = "case draft of Some r \<Rightarrow> r | None \<Rightarrow> new_request"
  have st: "start_date ?r = None"
    using assms(1) by (cases draft) (simp_all add: new_request_def)
  have "start_date (apply_extracted x ?r) = None"
    using st assms(2) by (simp add: apply_extracted_fields)
  then have "fallback_start dp user_message (apply_extracted x ?r)
        = (apply_extracted x ?r)\<lparr>start_date := Some s, end_date := Some e,
             req_duration := Some (whole_minutes (e - s))\<rparr>"
    using assms(3) by (simp add: fallback_start_def)
  then show ?thesis
    by (simp add: merge_draft_def merge_fields_def derive_end_fields default_title_fields
          fallback_duration_fields falsy_duration_def)
qed

text \<open>
  Hence the condition under which a second merge differs from the first, with the stored
  duration written out.
\<close>

lemma range_overrides_extraction_explicit:
  "range_overrides_extraction dp msg (Some x) draft \<longleftrightarrow>
     (case draft of Some r \<Rightarrow> start_date r | None \<Rightarrow> None) = None
     \<and> ex_start_time x = None
     \<and> (\<exists>s e. parse_time_range dp msg = Some (s, e)
          \<and> ((ex_end_time x \<noteq> None \<and> ex_end_time x \<noteq> Some e)
              \<or> (\<not> falsy_duration (ex_duration x)
                  \<and> ex_duration x \<noteq>
                      (if whole_minutes (e - s) \<noteq> 0 then Some (whole_minutes (e - s))
                       else if \<not> falsy_duration (parse_duration dp msg)
                       then parse_duration dp msg else Some 0))))"
proof (cases "(case draft of Some r \<Rightarrow> start_date r | None \<Rightarrow> None) = None
              \<and> ex_start_time x = None")
  case False
  then show ?thesis by (auto simp: range_overrides_extraction_def)
next
  case True
  show ?thesis
  proof (cases "parse_time_range dp msg")
    case None
    then show ?thesis by (simp add: range_overrides_extraction_def)
  next
    case (Some p)
    obtain s e where p: "p = (s, e)" by (cases p)
    from True Some p
    have d: "req_duration (merge_draft dp msg (Some x) draft) =
           (if whole_minutes (e - s) \<noteq> 0 then Some (whole_minutes (e - s))
            else if \<not> falsy_duration (parse_duration dp msg)
            then parse_duration dp msg
            else Some 0)"
      by (intro merge_draft_range_duration) simp_all
    show ?thesis
      unfolding range_overrides_extraction_def option.case Some p prod.case d
      using True by simp
  qed
qed

section \<open>C1: the availability check of the dialogue\<close>

text \<open>
  C1, as stated, fails in two places.  With the Google calendar, a busy interval for which
  the search finds no alternative ends the turn in \<^verbatim>\<open>COLLECTING_DETAILS\<close>, not in
  \<^verbatim>\<open>SUGGESTING_SLOTS\<close>: \<^verbatim>\<open>suggest_alternative_slots\<close> falls back when it has nothing to
  offer.  With the in-memory calendar, an interval that conflicts with no stored event does
  not end the turn in \<^verbatim>\<open>CONFIRMING_BOOKING\<close>: \<^verbatim>\<open>MockCalendar\<close> has no method
  \<^verbatim>\<open>is_time_available\<close>, the call raises, and the \<^verbatim>\<open>except\<close> branch suggests
  alternatives.
\<close>

theorem check_availability_counterexample:
  "current_state (check_availability sample_env (Google busy_google)
      (state_with CHECKING_AVAILABILITY (draft_at 15 60 60) ''tomorrow at 3pm for 1 hour''))
     = COLLECTING_DETAILS
   \<and> slot_is_available
       \<lparr>start_time = combine monday (time_hm 15 0), end_time = combine monday (time_hm 16 0),
        duration_minutes = 60\<rparr> (events_values sample_calendar)
   \<and> current_state (check_availability sample_env (Mock sample_calendar)
        (state_with CHECKING_AVAILABILITY (draft_at 15 60 60) ''tomorrow at 3pm for 1 hour''))
      = SUGGESTING_SLOTS"
  by (simp add: node_eval busy_google_def sample_calendar_def sample_parser_def eval_defs)

text \<open>
  C1, amended: for every session whose draft has a start instant and a title, and a
  calendar backend that offers the single-slot check (the Google calendar), the availability
  check asks the backend about the draft's interval.  If the backend reports the interval
  free, the turn ends in \<^verbatim>\<open>CONFIRMING_BOOKING\<close> with the summary as reply.  If it reports
  busy, or the call raises, the state is set to \<^verbatim>\<open>SUGGESTING_SLOTS\<close> (after an apology,
  when the call raised) and slot suggestion runs in the same turn; the turn then ends in
  \<^verbatim>\<open>SUGGESTING_SLOTS\<close> when the search returns a slot and in \<^verbatim>\<open>COLLECTING_DETAILS\<close>
  when it returns none or raises.
\<close>

theorem check_availability_outcome:
  assumes r: "appointment_request st = Some r" and s: "start_date r = Some s"
    and t: "title r = Some t"
  shows "(svc_is_time_available (Google g) r s = Inr True \<longrightarrow>
            check_availability env (Google g) st
              = update_state CONFIRMING_BOOKING
                  (add_assistant_message
                     (SlotAvailable (format_datetime (date_parser env) s) (req_duration r) t) st)
            \<and> current_state (check_availability env (Google g) st) = CONFIRMING_BOOKING)
       \<and> (svc_is_time_available (Google g) r s = Inr False \<longrightarrow>
            check_availability env (Google g) st
              = suggest_alternative_slots env (Google g) (update_state SUGGESTING_SLOTS st))
       \<and> (\<forall>e. svc_is_time_available (Google g) r s = Inl e \<longrightarrow>
            check_availability env (Google g) st
              = suggest_alternative_slots env (Google g)
                  (update_state SUGGESTING_SLOTS
                     (add_assistant_message (CalendarError (str_exn e)) st)))
       \<and> (svc_is_time_available (Google g) r s \<noteq> Inr True \<longrightarrow>
            current_state (check_availability env (Google g) st) =
              (case g_get_availability g s (s + days 7)
                      (if falsy_duration (req_duration r) then 60 else the (req_duration r)) of
                 Inl e \<Rightarrow> COLLECTING_DETAILS
               | Inr slots \<Rightarrow> if slots \<noteq> [] then SUGGESTING_SLOTS else COLLECTING_DETAILS))"
proof -
  have base: "check_availability env (Google g) st =
      (case svc_is_time_available (Google g) r s of
         Inl e \<Rightarrow> suggest_alternative_slots env (Google g)
                    (update_state SUGGESTING_SLOTS
                       (add_assistant_message (CalendarError (str_exn e)) st))
       | Inr is_available \<Rightarrow>
           if is_available
           then update_state CONFIRMING_BOOKING
                  (add_assistant_message
                     (SlotAvailable (format_datetime (date_parser env) s) (req_duration r) t) st)
           else suggest_alternative_slots env (Google g) (update_state SUGGESTING_SLOTS st))"
    using r s t
    by (simp add: check_availability.simps [of env "Google g" st] has_start_def
          split: sum.splits)
  have sug: "current_state (suggest_alternative_slots env (Google g) st') =
              (case g_get_availability g s (s + days 7)
                      (if falsy_duration (req_duration r) then 60 else the (req_duration r)) of
                 Inl e \<Rightarrow> COLLECTING_DETAILS
               | Inr slots \<Rightarrow> if slots \<noteq> [] then SUGGESTING_SLOTS else COLLECTING_DETAILS)"
    if "appointment_request st' = Some r" for st'
    using suggest_alternative_slots_outcome [OF that t, of env "Google g"] s
    by (simp add: svc_get_availability_def)
  have r1: "appointment_request (update_state SUGGESTING_SLOTS st) = Some r"
    and r2: "appointment_request (update_state SUGGESTING_SLOTS
               (add_assistant_message (CalendarError (str_exn e)) st)) = Some r" for e
    using r by (simp_all add: update_state_def add_assistant_message_def)
  show ?thesis
  proof (cases "svc_is_time_available (Google g) r s")
    case (Inl e)
    with base sug [OF r2 [of e]] show ?thesis by simp
  next
    case (Inr b)
    with base sug [OF r1] show ?thesis by (cases b) (simp_all add: update_state_def)
  qed
qed

text \<open>
  Witness for C1: a Google calendar that reports the draft's interval free ends the turn in
  \<^verbatim>\<open>CONFIRMING_BOOKING\<close>.
\<close>

theorem check_availability_outcome_witness:
  "appointment_request
     (state_with CHECKING_AVAILABILITY (draft_at 15 60 60) ''tomorrow at 3pm for 1 hour'')
     = Some (draft_at 15 60 60)
   \<and> start_date (draft_at 15 60 60) = Some (combine monday (time_hm 15 0))
   \<and> title (draft_at 15 60 60) = Some ''Meeting''
   \<and> svc_is_time_available (Google free_google) (draft_at 15 60 60)
        (combine monday (time_hm 15 0)) = Inr True
   \<and> current_state (check_availability sample_env (Google free_google)
        (state_with CHECKING_AVAILABILITY (draft_at 15 60 60) ''tomorrow at 3pm for 1 hour''))
      = CONFIRMING_BOOKING"
proof -
  let ?st = "state_with CHECKING_AVAILABILITY (draft_at 15 60 60) ''tomorrow at 3pm for 1 hour''"
  have r: "appointment_request ?st = Some (draft_at 15 60 60)" by (simp add: state_with_def)
  have s: "start_date (draft_at 15 60 60) = Some (combine monday (time_hm 15 0))"
    and t: "title (draft_at 15 60 60) = Some ''Meeting''"
    by (simp_all add: draft_at_def)
  have free: "svc_is_time_available (Google free_google) (draft_at 15 60 60)
                (combine monday (time_hm 15 0)) = Inr True"
    by (simp add: svc_is_time_available_def resolved_end_def draft_at_def free_google_def)
  from check_availability_outcome [OF r s t, of free_google sample_env] free
  have "current_state (check_availability sample_env (Google free_google) ?st)
          = CONFIRMING_BOOKING"
    by blast
  with r s t free show ?thesis by simp
qed

section \<open>C2: the conflict check of the in-memory calendar at commit\<close>

text \<open>
  C2 does not hold of the code.  \<^verbatim>\<open>book_appointment\<close> does not test the requested interval
  against the stored events: it asks \<^verbatim>\<open>get_availability\<close> for the free candidate slots of
  the requested length on the days that the interval touches, and books when there is any.
  The seeded calendar holds the Team Meeting from 10:00 to 11:00 on the sample Monday; a
  request for the same interval finds the free candidate from 9:00 to 10:00, succeeds and
  stores a second event over the first.
\<close>

theorem book_appointment_overlap_succeeds:
  "\<not> slot_is_available ten_to_eleven (events_values sample_calendar)
   \<and> success (fst (book_appointment sample_parser 1000 sample_calendar (Some ''Sync'')
                     (start_time ten_to_eleven) (end_time ten_to_eleven) None []))
   \<and> event_id (fst (book_appointment sample_parser 1000 sample_calendar (Some ''Sync'')
                      (start_time ten_to_eleven) (end_time ten_to_eleven) None []))
       = Some ''event_4_1000''
   \<and> titles (snd (book_appointment sample_parser 1000 sample_calendar (Some ''Sync'')
                    (start_time ten_to_eleven) (end_time ten_to_eleven) None []))
       = [(''mock_event_0'', ''Team Meeting''), (''mock_event_1'', ''Client Call''),
          (''mock_event_2'', ''Lunch Break''), (''mock_event_3'', ''Product Review''),
          (''event_4_1000'', ''Sync'')]"
  by (simp add: book_eval ten_to_eleven_def titles_def)

section \<open>C3: validation before the dialogue commits\<close>

text \<open>
  C3, as stated, fails: the dialogue's booking path never calls the validator.  A confirmed
  draft of 5 minutes whose start lies in the past, which \<^verbatim>\<open>validate_appointment_request\<close>
  rejects, is committed to the in-memory calendar and the session ends in
  \<^verbatim>\<open>BOOKING_COMPLETE\<close>.
\<close>

theorem dialogue_booking_unvalidated_counterexample:
  "fst (validate_appointment_request (now late_env) (draft_at 16 5 5)) = False
   \<and> the (req_duration (draft_at 16 5 5)) < min_duration
   \<and> the (start_date (draft_at 16 5 5)) < now late_env
   \<and> current_state (fst (confirm_booking late_env (Mock sample_calendar)
        (state_with CONFIRMING_BOOKING (draft_at 16 5 5) ''yes''))) = BOOKING_COMPLETE
   \<and> stored_ids (snd (confirm_booking late_env (Mock sample_calendar)
        (state_with CONFIRMING_BOOKING (draft_at 16 5 5) ''yes'')))
      = [''mock_event_0'', ''mock_event_1'', ''mock_event_2'', ''mock_event_3'',
         ''event_4_1000'']"
  by (simp add: node_eval validator_eval book_eval)

text \<open>
  C3, amended: on the dialogue's booking path with the in-memory calendar, the constraint
  that the start is before the end is enforced, by the calendar itself: a draft whose
  resolved end (its end instant, or else its start plus its duration) is not after its
  start is never committed; the store is unchanged, the reply carries the calendar's
  message \<^verbatim>\<open>Start time must be before end time\<close>, and the session moves to
  \<^verbatim>\<open>COLLECTING_DETAILS\<close>.
\<close>

theorem nodes_book_appointment_inverted_interval:
  assumes r: "appointment_request st = Some r" and s: "start_date r = Some s"
    and e: "resolved_end r s = Inr e" and inv: "e \<le> s"
  shows "nodes_book_appointment env (Mock cal) st
         = (update_state COLLECTING_DETAILS
              (add_assistant_message (BookingFailed ''Start time must be before end time'') st),
            Mock cal)"
  using assms
  by (simp add: nodes_book_appointment_def has_start_def svc_book_appointment_def
        book_appointment_def)

text \<open>Witness for C3: a draft from 16:00 to 15:00 of the same day.\<close>

theorem nodes_book_appointment_inverted_interval_witness:
  "appointment_request (state_with CONFIRMING_BOOKING (draft_at 16 (- 60) 60) ''yes'')
     = Some (draft_at 16 (- 60) 60)
   \<and> start_date (draft_at 16 (- 60) 60) = Some (combine monday (time_hm 16 0))
   \<and> resolved_end (draft_at 16 (- 60) 60) (combine monday (time_hm 16 0))
       = Inr (combine monday (time_hm 15 0))
   \<and> combine monday (time_hm 15 0) \<le> combine monday (time_hm 16 0)
   \<and> nodes_book_appointment sample_env (Mock sample_calendar)
        (state_with CONFIRMING_BOOKING (draft_at 16 (- 60) 60) ''yes'')
      = (update_state COLLECTING_DETAILS
           (add_assistant_message (BookingFailed ''Start time must be before end time'')
              (state_with CONFIRMING_BOOKING (draft_at 16 (- 60) 60) ''yes'')),
         Mock sample_calendar)"
proof -
  let ?st = "state_with CONFIRMING_BOOKING (draft_at 16 (- 60) 60) ''yes''"
  have r: "appointment_request ?st = Some (draft_at 16 (- 60) 60)"
    by (simp add: state_with_def)
  have s: "start_date (draft_at 16 (- 60) 60) = Some (combine monday (time_hm 16 0))"
    by (simp add: draft_at_def)
  have e: "resolved_end (draft_at 16 (- 60) 60) (combine monday (time_hm 16 0))
       = Inr (combine monday (time_hm 15 0))"
    by (simp add: resolved_end_def draft_at_def time_defs)
  have inv: "combine monday (time_hm 15 0) \<le> combine monday (time_hm 16 0)"
    by (simp add: time_defs)
  from nodes_book_appointment_inverted_interval [OF r s e inv, of sample_env sample_calendar]
    r s e inv
  show ?thesis by simp
qed

section \<open>C4: the conflict predicate\<close>

text \<open>
  C4 does not hold of the Google calendar's filter.  The in-memory calendar applies the
  predicate as stated (see \<open>slot_is_available_iff\<close> and the theorem
  \<open>filter_conflicting_slots_exact\<close> below).  The Google filter compares a naive slot
  time with the event's times as parsed; an event time that carries a UTC offset, as the
  times that the Google service returns do (\<^verbatim>\<open>...Z\<close> becomes \<^verbatim>\<open>...+00:00\<close>), parses to
  an aware datetime, the comparison raises \<^verbatim>\<open>TypeError\<close>, and the bare \<^verbatim>\<open>except\<close>
  continues with the next event.  The slot from 10:00 to 11:00 is returned as available
  although an event from 10:00 to 11:00 exists; with the same times written without offset
  the slot is filtered out, as it is by the in-memory calendar.
\<close>

theorem google_filter_keeps_overlapping_slot:
  "start_time ten_to_eleven < combine monday (time_hm 11 0)
   \<and> end_time ten_to_eleven > combine monday (time_hm 10 0)
   \<and> sample_fromisoformat (replace_Z ''2025-07-07T10:00:00Z'')
       = Some (Aware (combine monday (time_hm 10 0)))
   \<and> sample_fromisoformat (replace_Z ''2025-07-07T11:00:00Z'')
       = Some (Aware (combine monday (time_hm 11 0)))
   \<and> google_filter_conflicting_slots sample_fromisoformat [ten_to_eleven]
        [\<lparr>g_start_str = ''2025-07-07T10:00:00Z'', g_end_str = ''2025-07-07T11:00:00Z''\<rparr>]
      = [ten_to_eleven]
   \<and> google_filter_conflicting_slots sample_fromisoformat [ten_to_eleven]
        [\<lparr>g_start_str = ''2025-07-07T10:00:00'', g_end_str = ''2025-07-07T11:00:00''\<rparr>]
      = []
   \<and> filter_conflicting_slots sample_calendar [ten_to_eleven] = []"
  by (simp add: google_filter_conflicting_slots_def sample_fromisoformat_def replace_Z_def
        ten_to_eleven_def filter_conflicting_slots_def events_values_def sample_calendar_def
        generate_mock_events_def mock_event_def time_defs monday_def)

section \<open>C5: the slots of the availability search\<close>

text \<open>
  C5, as stated, fails for a requested duration that is not positive.
  \<^verbatim>\<open>get_availability\<close> takes any integer as duration (the route \<^verbatim>\<open>/availability\<close> passes
  its query parameter on unchecked).  With duration 0 the loop of \<^verbatim>\<open>_generate_day_slots\<close>
  yields a slot that starts at 18:00, which \<^verbatim>\<open>is_business_hours\<close> rejects; with duration
  -60 it yields a slot that starts at 19:00.
\<close>

theorem get_availability_nonpositive_duration_counterexample:
  "\<lparr>start_time = combine monday (time_hm 18 0), end_time = combine monday (time_hm 18 0),
     duration_minutes = 0\<rparr>
     \<in> set (get_availability \<lparr>events = []\<rparr> (combine monday 0) (combine monday 0) 0)
   \<and> \<not> is_business_hours (combine monday (time_hm 18 0))
   \<and> \<lparr>start_time = combine monday (time_hm 19 0), end_time = combine monday (time_hm 18 0),
       duration_minutes = - 60\<rparr>
     \<in> set (get_availability \<lparr>events = []\<rparr> (combine monday 0) (combine monday 0) (- 60))
   \<and> \<not> is_business_hours (combine monday (time_hm 19 0))"
  by (simp add: eval_defs is_business_hours_def)

text \<open>
  C5, amended: for every positive requested duration \<open>d\<close>, every slot that the availability
  search of the in-memory calendar returns has \<open>duration_minutes = d\<close>, equal to the whole
  minutes between its start and its end; its start is on a weekday within business hours
  (9:00 inclusive to 18:00 exclusive) on a day of the search window; it is candidate number
  \<open>k\<close> of its day for some \<open>k\<close>, that is, it starts \<open>30 * k\<close> minutes after 9:00; it
  ends by 18:00; it conflicts with no stored event; and the candidates of its day are
  exactly the candidates number \<open>0\<close> to \<open>day_slot_count d - 1\<close>, in this order: all those
  that end by 18:00.
\<close>

theorem get_availability_positive_duration:
  assumes d: "0 < d"
    and slot: "slot \<in> set (get_availability cal window_start window_end d)"
  shows "duration_minutes slot = d
       \<and> whole_minutes (end_time slot - start_time slot) = duration_minutes slot
       \<and> is_business_hours (start_time slot)
       \<and> date_of window_start \<le> date_of (start_time slot)
       \<and> date_of (start_time slot) \<le> date_of window_end
       \<and> (\<exists>k. slot = slot_at (date_of (start_time slot)) d k)
       \<and> end_time slot \<le> combine (date_of (start_time slot)) business_hours_end
       \<and> slot_is_available slot (events_values cal)
       \<and> generate_day_slots (date_of (start_time slot)) d
           = map (slot_at (date_of (start_time slot)) d) [0..<day_slot_count d]"
proof -
  from slot obtain day where day: "date_of window_start \<le> day" "day \<le> date_of window_end"
      and wk: "weekday day < 5"
      and mem: "slot \<in> set (filter_conflicting_slots cal (generate_day_slots day d))"
    unfolding get_availability_def availability_loop_set by blast
  from mem have free: "slot_is_available slot (events_values cal)"
    and gen: "slot \<in> set (generate_day_slots day d)"
    by (simp_all add: filter_conflicting_slots_set)
  from gen obtain k where k: "k < day_slot_count d" and eq: "slot = slot_at day d k"
    unfolding generate_day_slots_closed by auto
  note bh = slot_at_business_hours [OF d k wk]
  have dur: "duration_minutes slot = d" by (simp add: eq slot_at_def)
  have "end_time slot - start_time slot = minutes d" by (simp add: eq slot_at_def)
  then have wm: "whole_minutes (end_time slot - start_time slot) = duration_minutes slot"
    by (simp add: whole_minutes_minutes dur)
  from bh(1) have dd: "date_of (start_time slot) = day" by (simp add: eq)
  from dur wm bh day free eq dd show ?thesis
    by (auto simp: generate_day_slots_closed)
qed

text \<open>
  Witness for C5: a 60-minute search on a Monday whose calendar holds the seeded events
  returns the slot from 9:00 to 10:00.
\<close>

theorem get_availability_positive_duration_witness:
  "(0::int) < 60
   \<and> \<lparr>start_time = combine monday (time_hm 9 0), end_time = combine monday (time_hm 10 0),
       duration_minutes = 60\<rparr>
     \<in> set (get_availability sample_calendar
              (combine monday (time_hm 10 0)) (combine monday (time_hm 11 0)) 60)
   \<and> is_business_hours (combine monday (time_hm 9 0))"
proof -
  let ?slot = "\<lparr>start_time = combine monday (time_hm 9 0),
                end_time = combine monday (time_hm 10 0), duration_minutes = 60\<rparr>"
  have d: "(0::int) < 60" by simp
  have mem: "?slot \<in> set (get_availability sample_calendar
                            (combine monday (time_hm 10 0)) (combine monday (time_hm 11 0)) 60)"
    by (simp add: sample_calendar_def eval_defs)
  from get_availability_positive_duration [OF d mem] d mem show ?thesis by simp
qed

section \<open>C6: the default duration\<close>

text \<open>
  C6, as stated, fails.  The merge assigns the default of 60 minutes without looking at the
  start instant: an existing draft with no start instant, no end instant and no duration
  leaves the merge with duration 60 and still no start instant.  And a draft that the merge
  creates starts as \<^verbatim>\<open>AppointmentRequest(duration_minutes=60)\<close>: when the extraction result
  gives it a start and an end instant two hours apart, it keeps the duration 60 beside its
  explicit end instant.
\<close>

theorem default_duration_counterexample:
  "start_date (merge_draft sample_parser ''hello'' None (Some empty_draft)) = None
   \<and> req_duration (merge_draft sample_parser ''hello'' None (Some empty_draft)) = Some 60
   \<and> end_date (merge_draft sample_parser ''3 to 5 pm'' (Some extracted_two_hours) None)
       = Some (combine monday (time_hm 17 0))
   \<and> req_duration (merge_draft sample_parser ''3 to 5 pm'' (Some extracted_two_hours) None)
       = Some 60"
  by (simp add: merge_eval sample_parser_def empty_draft_def extracted_two_hours_def)

text \<open>
  C6, amended: in the draft merge, a duration of 60 minutes that none of the inputs supplies
  (not the draft before the merge, not the extraction result, not the duration phrase of
  the utterance, not the length of a parsed time range) is assigned only when no end
  instant is present after extraction and fallback parsing, whether a start instant is
  known or not: the merged draft then has no end instant, the utterance has no duration
  phrase, and the duration was unset before the default was applied.  Hence a draft with an
  explicit end instant and no duration leaves the merge without the default.  (A draft that
  the merge creates starts with duration 60, which the first hypothesis on the draft
  excludes here.)
\<close>

theorem default_duration_only_without_end:
  assumes res: "req_duration (merge_fields dp user_message extracted r) = Some 60"
    and draft: "req_duration r \<noteq> Some 60"
    and ext: "\<forall>x. extracted = Some x \<longrightarrow> ex_duration x \<noteq> Some 60"
    and phrase: "parse_duration dp user_message \<noteq> Some 60"
    and range: "\<forall>s e. parse_time_range dp user_message = Some (s, e)
                  \<longrightarrow> whole_minutes (e - s) \<noteq> 60"
  shows "end_date (merge_fields dp user_message extracted r) = None
       \<and> falsy_duration (parse_duration dp user_message)
       \<and> falsy_duration
            (req_duration (fallback_start dp user_message
               (case extracted of Some x \<Rightarrow> apply_extracted x r | None \<Rightarrow> r)))"
proof -
  let ?r1 = "case extracted of Some x \<Rightarrow> apply_extracted x r | None \<Rightarrow> r"
  let ?r2 = "fallback_start dp user_message ?r1"
  have d1: "req_duration ?r1 \<noteq> Some 60" using draft ext
    by (auto simp: apply_extracted_fields split: option.splits)
  have d2: "req_duration ?r2 \<noteq> Some 60" using d1 range
    by (auto simp: fallback_start_fields split: option.splits)
  have res': "req_duration (fallback_duration dp user_message ?r2) = Some 60"
    using res by (simp add: merge_fields_def default_title_fields)
  from res' d2 phrase
  have "falsy_duration (req_duration ?r2) \<and> falsy_duration (parse_duration dp user_message)
        \<and> end_date ?r2 = None"
    by (auto simp: fallback_duration_fields split: if_splits)
  moreover have "end_date (merge_fields dp user_message extracted r) = end_date ?r2"
    by (simp add: merge_fields_def default_title_fields fallback_duration_fields)
  ultimately show ?thesis by simp
qed

text \<open>
  Witness for C6: the empty draft and an utterance in which nothing is found; the default
  is applied and there is no end instant.
\<close>

theorem default_duration_only_without_end_witness:
  "req_duration (merge_fields sample_parser ''hello'' None empty_draft) = Some 60
   \<and> req_duration empty_draft \<noteq> Some 60
   \<and> parse_duration sample_parser ''hello'' \<noteq> Some 60
   \<and> parse_time_range sample_parser ''hello'' = None
   \<and> end_date (merge_fields sample_parser ''hello'' None empty_draft) = None"
proof -
  have res: "req_duration (merge_fields sample_parser ''hello'' None empty_draft) = Some 60"
    by (simp add: merge_eval sample_parser_def empty_draft_def)
  have draft: "req_duration empty_draft \<noteq> Some 60" by (simp add: empty_draft_def)
  have ext: "\<forall>x. (None :: ExtractedInfo option) = Some x \<longrightarrow> ex_duration x \<noteq> Some 60"
    by simp
  have phrase: "parse_duration sample_parser ''hello'' \<noteq> Some 60"
    by (simp add: sample_parser_def)
  have norange: "parse_time_range sample_parser ''hello'' = None"
    by (simp add: sample_parser_def)
  then have range: "\<forall>s e. parse_time_range sample_parser ''hello'' = Some (s, e)
                 \<longrightarrow> whole_minutes (e - s) \<noteq> 60"
    by simp
  from default_duration_only_without_end [OF res draft ext phrase range]
    res draft phrase norange
  show ?thesis by simp
qed

section \<open>C7: the outcome of the booking commit\<close>

text \<open>
  C7: for every booking attempt of the dialogue (the draft has a start instant), if the
  backend's commit raises, or returns a response that reports failure, the session does not
  move to \<^verbatim>\<open>BOOKING_COMPLETE\<close> and ends the turn in \<^verbatim>\<open>COLLECTING_DETAILS\<close>, with the
  exception's text or the backend's message as reply; if the commit reports success, the
  session moves to \<^verbatim>\<open>BOOKING_COMPLETE\<close> and the reply carries the event identifier of the
  backend's response.  The session is in \<^verbatim>\<open>BOOKING_COMPLETE\<close> after the attempt exactly
  when the commit reported success.
\<close>

theorem nodes_book_appointment_outcome:
  assumes r: "appointment_request st = Some r" and s: "start_date r = Some s"
  shows "(\<forall>e. svc_book_appointment env svc r s = Inl e \<longrightarrow>
            nodes_book_appointment env svc st
              = (update_state COLLECTING_DETAILS
                   (add_assistant_message (BookingError (str_exn e)) st), svc))
       \<and> (\<forall>resp svc'. svc_book_appointment env svc r s = Inr (resp, svc') \<and> \<not> success resp \<longrightarrow>
            nodes_book_appointment env svc st
              = (update_state COLLECTING_DETAILS
                   (add_assistant_message (BookingFailed (message resp)) st), svc'))
       \<and> (\<forall>resp svc'. svc_book_appointment env svc r s = Inr (resp, svc') \<and> success resp \<longrightarrow>
            nodes_book_appointment env svc st
              = (update_state BOOKING_COMPLETE
                   (add_assistant_message
                      (Booked (title r) (format_datetime (date_parser env) s) (req_duration r)
                         (event_id resp)) st), svc'))
       \<and> (current_state (fst (nodes_book_appointment env svc st)) = BOOKING_COMPLETE
            \<longleftrightarrow> (\<exists>resp svc'. svc_book_appointment env svc r s = Inr (resp, svc')
                   \<and> success resp))
       \<and> (current_state (fst (nodes_book_appointment env svc st)) \<noteq> BOOKING_COMPLETE
            \<longrightarrow> current_state (fst (nodes_book_appointment env svc st)) = COLLECTING_DETAILS)"
  using r s
  by (auto simp: nodes_book_appointment_def has_start_def update_state_def
        add_assistant_message_def split: sum.splits prod.splits)

text \<open>
  Witness for C7: with the in-memory calendar, the draft for Monday 15:00 to 16:00 is
  committed and the reply carries the new event's identifier; the draft from 16:00 to 15:00
  is refused and the session returns to \<^verbatim>\<open>COLLECTING_DETAILS\<close>.
\<close>

theorem nodes_book_appointment_outcome_witness:
  "current_state (fst (nodes_book_appointment sample_env (Mock sample_calendar)
       (state_with CONFIRMING_BOOKING (draft_at 15 60 60) ''yes''))) = BOOKING_COMPLETE
   \<and> last (messages (fst (nodes_book_appointment sample_env (Mock sample_calendar)
       (state_with CONFIRMING_BOOKING (draft_at 15 60 60) ''yes''))))
      = AssistantMessage
          (Booked (Some ''Meeting'') ''<datetime>'' (Some 60) (Some ''event_4_1000''))
   \<and> current_state (fst (nodes_book_appointment sample_env (Mock sample_calendar)
       (state_with CONFIRMING_BOOKING (draft_at 16 (- 60) 60) ''yes''))) = COLLECTING_DETAILS"
proof -
  let ?ok = "state_with CONFIRMING_BOOKING (draft_at 15 60 60) ''yes''"
  let ?bad = "state_with CONFIRMING_BOOKING (draft_at 16 (- 60) 60) ''yes''"
  have r1: "appointment_request ?ok = Some (draft_at 15 60 60)"
    and r2: "appointment_request ?bad = Some (draft_at 16 (- 60) 60)"
    by (simp_all add: state_with_def)
  have s1: "start_date (draft_at 15 60 60) = Some (combine monday (time_hm 15 0))"
    and s2: "start_date (draft_at 16 (- 60) 60) = Some (combine monday (time_hm 16 0))"
    by (simp_all add: draft_at_def)
  have "\<exists>resp svc'. svc_book_appointment sample_env (Mock sample_calendar) (draft_at 15 60 60)
                       (combine monday (time_hm 15 0)) = Inr (resp, svc')
                     \<and> success resp \<and> event_id resp = Some ''event_4_1000''"
    by (simp add: node_eval book_eval)
  then obtain resp svc' where
    b1: "svc_book_appointment sample_env (Mock sample_calendar) (draft_at 15 60 60)
           (combine monday (time_hm 15 0)) = Inr (resp, svc')"
    and ok: "success resp" and eid: "event_id resp = Some ''event_4_1000''"
    by blast
  have "\<exists>resp svc'. svc_book_appointment sample_env (Mock sample_calendar)
                       (draft_at 16 (- 60) 60) (combine monday (time_hm 16 0))
                       = Inr (resp, svc')
                     \<and> \<not> success resp"
    by (simp add: node_eval book_eval)
  then obtain resp2 svc2 where
    b2: "svc_book_appointment sample_env (Mock sample_calendar) (draft_at 16 (- 60) 60)
           (combine monday (time_hm 16 0)) = Inr (resp2, svc2)"
    and bad: "\<not> success resp2"
    by blast
  from nodes_book_appointment_outcome [OF r1 s1, of sample_env "Mock sample_calendar"] b1 ok
  have "nodes_book_appointment sample_env (Mock sample_calendar) ?ok
          = (update_state BOOKING_COMPLETE
               (add_assistant_message
                  (Booked (title (draft_at 15 60 60))
                     (format_datetime (date_parser sample_env) (combine monday (time_hm 15 0)))
                     (req_duration (draft_at 15 60 60)) (event_id resp)) ?ok), svc')"
    by blast
  then have first:
      "current_state (fst (nodes_book_appointment sample_env (Mock sample_calendar) ?ok))
         = BOOKING_COMPLETE"
    and reply:
      "last (messages (fst (nodes_book_appointment sample_env (Mock sample_calendar) ?ok)))
         = AssistantMessage
             (Booked (Some ''Meeting'') ''<datetime>'' (Some 60) (Some ''event_4_1000''))"
    by (simp_all add: eid update_state_def add_assistant_message_def draft_at_def
          sample_env_def sample_parser_def)
  from nodes_book_appointment_outcome [OF r2 s2, of sample_env "Mock sample_calendar"] b2 bad
  have "nodes_book_appointment sample_env (Mock sample_calendar) ?bad
          = (update_state COLLECTING_DETAILS
               (add_assistant_message (BookingFailed (message resp2)) ?bad), svc2)"
    by blast
  then have "current_state (fst (nodes_book_appointment sample_env (Mock sample_calendar) ?bad))
               = COLLECTING_DETAILS"
    by (simp add: update_state_def add_assistant_message_def)
  with first reply show ?thesis by simp
qed

section \<open>C8: merging twice\<close>

text \<open>
  C8, as stated, fails.  The utterance \<^verbatim>\<open>a 30 minute call 3-5 pm\<close> holds a time range of
  two hours; the extraction result holds the duration 30 and no times.  The first merge of a
  fresh draft takes start, end and duration 120 from the time range, because the draft has
  no start instant after extraction.  The second merge, of the draft so obtained, finds a
  start instant, never looks at the time range, and keeps the extraction's duration 30: the
  draft after two merges differs from the draft after one.
\<close>

theorem merge_twice_counterexample:
  "req_duration (merge_draft range_parser ''a 30 minute call 3-5 pm''
       (Some extracted_duration_30) None) = Some 120
   \<and> req_duration (merge_draft range_parser ''a 30 minute call 3-5 pm''
       (Some extracted_duration_30)
       (Some (merge_draft range_parser ''a 30 minute call 3-5 pm''
                (Some extracted_duration_30) None))) = Some 30"
  by (simp add: merge_eval range_parser_def extracted_duration_30_def time_defs monday_def)

text \<open>
  C8, amended: for every draft, user utterance and extraction result, applying the merge
  twice in a row with the same utterance and the same extraction result yields the same
  draft as applying it once, except when the time range parsed from the utterance overrides
  what the extraction result supplied: that is, exactly when there is an extraction result,
  neither the draft nor the extraction result has a start instant, the utterance holds a
  time range, and the extraction result supplies an end instant other than the range's end
  or a non-zero duration other than the duration that the first merge stores
  (\<open>range_overrides_extraction\<close>).  In particular the merge is idempotent whenever there is
  no extraction result or the utterance holds no time range.
\<close>

theorem merge_twice_iff:
  "merge_draft dp msg ext (Some (merge_draft dp msg ext draft)) = merge_draft dp msg ext draft
    \<longleftrightarrow> \<not> range_overrides_extraction dp msg ext draft"
proof
  assume "merge_draft dp msg ext (Some (merge_draft dp msg ext draft))
            = merge_draft dp msg ext draft"
  then have "end_date (merge_draft dp msg ext (Some (merge_draft dp msg ext draft)))
               = end_date (merge_draft dp msg ext draft)
    \<and> req_duration (merge_draft dp msg ext (Some (merge_draft dp msg ext draft)))
               = req_duration (merge_draft dp msg ext draft)"
    by simp
  with merge_twice_end_duration [of dp msg ext draft]
  show "\<not> range_overrides_extraction dp msg ext draft" by blast
next
  assume "\<not> range_overrides_extraction dp msg ext draft"
  with merge_twice_end_duration [of dp msg ext draft]
  have "end_date (merge_draft dp msg ext (Some (merge_draft dp msg ext draft)))
          = end_date (merge_draft dp msg ext draft)"
    and "req_duration (merge_draft dp msg ext (Some (merge_draft dp msg ext draft)))
          = req_duration (merge_draft dp msg ext draft)"
    by blast+
  then show "merge_draft dp msg ext (Some (merge_draft dp msg ext draft))
               = merge_draft dp msg ext draft"
    by (intro AppointmentRequest.equality)
       (simp_all add: merge_twice_title merge_twice_description merge_twice_attendees
          merge_twice_start merge_twice_more)
qed

text \<open>
  Witness for C8: with no extraction result nothing is overridden, and merging
  \<^verbatim>\<open>a call tomorrow\<close> twice gives the draft of one merge, titled \<^verbatim>\<open>Call\<close>.
\<close>

theorem merge_twice_iff_witness:
  "\<not> range_overrides_extraction sample_parser ''a call tomorrow'' None None
   \<and> merge_draft sample_parser ''a call tomorrow'' None
        (Some (merge_draft sample_parser ''a call tomorrow'' None None))
      = merge_draft sample_parser ''a call tomorrow'' None None
   \<and> title (merge_draft sample_parser ''a call tomorrow'' None None) = Some ''Call''"
proof -
  have no: "\<not> range_overrides_extraction sample_parser ''a call tomorrow'' None None"
    by (simp add: range_overrides_extraction_def)
  have t: "title (merge_draft sample_parser ''a call tomorrow'' None None) = Some ''Call''"
    by (simp add: merge_eval sample_parser_def)
  from merge_twice_iff [of sample_parser "''a call tomorrow''" None None] no t
  show ?thesis by simp
qed

section \<open>C9: slot selection\<close>

text \<open>
  C9: for every list of offered slots and every reply, the matching loop of the slot
  selection returns (it does not raise \<^verbatim>\<open>IndexError\<close>), and a slot it selects is the slot
  at an index below the number of offered slots.  In particular, when one slot was offered
  and the reply is \<^verbatim>\<open>option 2\<close> (in any letter case), the handler does not raise and its
  result is that of the detail collection run on the same session, which reads the reply as
  new draft input.
\<close>

theorem slot_selection_in_range:
  "(\<exists>r. select_slot_loop message_lower slots 0 = Inr r
        \<and> (\<forall>slot. r = Some slot \<longrightarrow> (\<exists>j. j < length slots \<and> slot = slots ! j)))
   \<and> (get_last_user_message st = Some user_message \<and> lower user_message = ''option 2''
        \<and> length (available_slots st) = 1
      \<longrightarrow> handle_slot_selection env svc st
            = Inr (collect_appointment_details_with_ai env svc st))"
proof
  from select_slot_loop_in_range [of message_lower slots 0]
  show "\<exists>r. select_slot_loop message_lower slots 0 = Inr r
        \<and> (\<forall>slot. r = Some slot \<longrightarrow> (\<exists>j. j < length slots \<and> slot = slots ! j))"
    by blast
next
  show "get_last_user_message st = Some user_message \<and> lower user_message = ''option 2''
        \<and> length (available_slots st) = 1
      \<longrightarrow> handle_slot_selection env svc st
            = Inr (collect_appointment_details_with_ai env svc st)"
  proof
    assume a: "get_last_user_message st = Some user_message
        \<and> lower user_message = ''option 2'' \<and> length (available_slots st) = 1"
    then obtain slot where slots: "available_slots st = [slot]"
      by (cases "available_slots st") auto
    from a have ne: "user_message \<noteq> []" by (auto simp: lower_def)
    from a slots ne
    show "handle_slot_selection env svc st
            = Inr (collect_appointment_details_with_ai env svc st)"
      by (simp add: handle_slot_selection_def option_2_of_one)
  qed
qed

text \<open>
  Witness for C9: the session \<open>one_offer\<close> holds one offered slot and the reply
  \<^verbatim>\<open>Option 2\<close>.
\<close>

theorem slot_selection_in_range_witness:
  "get_last_user_message one_offer = Some ''Option 2''
   \<and> lower ''Option 2'' = ''option 2''
   \<and> length (available_slots one_offer) = 1
   \<and> handle_slot_selection sample_env (Mock sample_calendar) one_offer
      = Inr (collect_appointment_details_with_ai sample_env (Mock sample_calendar) one_offer)"
proof -
  have a: "get_last_user_message one_offer = Some ''Option 2''"
    by (simp add: get_last_user_message_def one_offer_def)
  have b: "lower ''Option 2'' = ''option 2''"
    by (simp add: lower_def lower_char_def)
  have c: "length (available_slots one_offer) = 1"
    by (simp add: one_offer_def)
  from slot_selection_in_range
         [of _ _ one_offer "''Option 2''" sample_env "Mock sample_calendar"] a b c
  show ?thesis by blast
qed

section \<open>C10: what a booking does to the event store\<close>

text \<open>
  C10 does not hold of \<^verbatim>\<open>MockCalendar.book_appointment\<close> in its last part.  The new event's
  identifier is \<^verbatim>\<open>event_{len(self.events)}_{int(timestamp)}\<close>.  After a booking in the
  seeded calendar (identifier \<^verbatim>\<open>event_4_1000\<close>) and the deletion of a seeded event, the store
  again holds four events, so a second booking within the same second is given the
  identifier \<^verbatim>\<open>event_4_1000\<close> again: it reports success with that identifier, and the
  assignment to the dictionary replaces the first booking.  The store holds four events
  before and after, and the first booking is lost.  The parts of C10 that hold are the
  theorem \<open>book_appointment_atomic\<close> below.
\<close>

theorem book_appointment_id_collision:
  "success (fst first_booking) \<and> event_id (fst first_booking) = Some ''event_4_1000''
   \<and> fst after_delete
   \<and> titles (snd after_delete) =
      [(''mock_event_0'', ''Team Meeting''), (''mock_event_1'', ''Client Call''),
       (''mock_event_2'', ''Lunch Break''), (''event_4_1000'', ''First'')]
   \<and> success (fst second_booking) \<and> event_id (fst second_booking) = Some ''event_4_1000''
   \<and> titles (snd second_booking) =
      [(''mock_event_0'', ''Team Meeting''), (''mock_event_1'', ''Client Call''),
       (''mock_event_2'', ''Lunch Break''), (''event_4_1000'', ''Second'')]"
  by (simp add: first_booking_eval after_delete_eval second_booking_def titles_def book_eval)

section \<open>Further properties of the calendar and the dialogue\<close>

text \<open>
  The conflict filter of the in-memory calendar keeps exactly the candidate slots that
  overlap no stored event, with strict inequalities: a slot is dropped as soon as
  \<^verbatim>\<open>slot.start_time < event.end_time and slot.end_time > event.start_time\<close> for one stored
  event, so that a slot that ends when an event starts, or starts when it ends, is kept.
\<close>

theorem filter_conflicting_slots_exact:
  "slot \<in> set (filter_conflicting_slots cal slots) \<longleftrightarrow>
     slot \<in> set slots
     \<and> (\<forall>event \<in> set (events_values cal).
           \<not> (start_time slot < ev_end_time event \<and> end_time slot > ev_start_time event))"
  by (simp add: filter_conflicting_slots_set slot_is_available_iff)

text \<open>
  Witness: in the seeded calendar, with an event on Monday from 10:00 to 11:00, the slot
  from 9:00 to 10:00 abuts the event and is kept; the slot from 10:00 to 11:00 is dropped.
\<close>

theorem filter_conflicting_slots_exact_witness:
  "\<lparr>start_time = combine monday (time_hm 9 0), end_time = combine monday (time_hm 10 0),
     duration_minutes = 60\<rparr>
     \<in> set (filter_conflicting_slots sample_calendar
              [\<lparr>start_time = combine monday (time_hm 9 0),
                end_time = combine monday (time_hm 10 0), duration_minutes = 60\<rparr>,
               ten_to_eleven])
   \<and> ten_to_eleven
     \<notin> set (filter_conflicting_slots sample_calendar
              [\<lparr>start_time = combine monday (time_hm 9 0),
                end_time = combine monday (time_hm 10 0), duration_minutes = 60\<rparr>,
               ten_to_eleven])"
  unfolding filter_conflicting_slots_exact
  by (simp add: ten_to_eleven_def events_values_def sample_calendar_def generate_mock_events_def
        mock_event_def time_defs monday_def)

text \<open>
  \<^verbatim>\<open>MockCalendar.book_appointment\<close> always returns a response (the model is a total
  function whose branches are the method's returns, the \<^verbatim>\<open>except\<close> branch among them).
  It reports success exactly when the response carries an event identifier.  When the
  start is not before the end, or the availability search over the interval finds no
  slot, it reports failure; whenever it reports failure the event store is unchanged.  When
  it reports success the identifier is \<^verbatim>\<open>event_{len(self.events)}_{int(timestamp)}\<close>, the
  store holds an event under that identifier, and every other identifier maps to what it
  mapped to before.
\<close>

theorem book_appointment_atomic:
  "(success (fst (book_appointment dp ts cal title_arg start_t end_t description_arg
                    attendees_arg))
      \<longleftrightarrow> event_id (fst (book_appointment dp ts cal title_arg start_t end_t description_arg
                            attendees_arg)) \<noteq> None)
   \<and> (start_t \<ge> end_t
        \<or> get_availability cal start_t end_t (whole_minutes (end_t - start_t)) = []
        \<longrightarrow> \<not> success (fst (book_appointment dp ts cal title_arg start_t end_t
                               description_arg attendees_arg)))
   \<and> (\<not> success (fst (book_appointment dp ts cal title_arg start_t end_t description_arg
                        attendees_arg))
        \<longrightarrow> snd (book_appointment dp ts cal title_arg start_t end_t description_arg
                    attendees_arg) = cal)
   \<and> (success (fst (book_appointment dp ts cal title_arg start_t end_t description_arg
                      attendees_arg))
        \<longrightarrow> event_id (fst (book_appointment dp ts cal title_arg start_t end_t description_arg
                              attendees_arg))
              = Some (new_event_id cal ts)
          \<and> map_of (events (snd (book_appointment dp ts cal title_arg start_t end_t
                                    description_arg attendees_arg)))
                (new_event_id cal ts) \<noteq> None
          \<and> (\<forall>k. k \<noteq> new_event_id cal ts \<longrightarrow>
                map_of (events (snd (book_appointment dp ts cal title_arg start_t end_t
                                       description_arg attendees_arg))) k
                = map_of (events cal) k))"
  by (auto simp: book_appointment_def Let_def update_conv' split: option.splits)

text \<open>
  Witness: the booking of Monday 16:00 to 17:00 in the seeded calendar succeeds and leaves
  the seeded event \<^verbatim>\<open>mock_event_0\<close> as it was; the booking from 17:00 to 16:00 fails and
  leaves the calendar unchanged.
\<close>

theorem book_appointment_atomic_witness:
  "success (fst first_booking)
   \<and> event_id (fst first_booking) = Some (new_event_id sample_calendar 1000)
   \<and> map_of (events (snd first_booking)) ''mock_event_0''
       = map_of (events sample_calendar) ''mock_event_0''
   \<and> \<not> success (fst (book_appointment sample_parser 1000 sample_calendar (Some ''Late'')
         (combine monday (time_hm 17 0)) (combine monday (time_hm 16 0)) None []))
   \<and> snd (book_appointment sample_parser 1000 sample_calendar (Some ''Late'')
         (combine monday (time_hm 17 0)) (combine monday (time_hm 16 0)) None [])
       = sample_calendar"
proof -
  have ok: "success (fst first_booking)" by (simp add: first_booking_eval)
  have other: "''mock_event_0'' \<noteq> new_event_id sample_calendar 1000"
    by (simp add: new_event_id_def)
  have inv: "combine monday (time_hm 17 0) \<ge> combine monday (time_hm 16 0)"
    by (simp add: time_defs)
  note a = book_appointment_atomic [of sample_parser 1000 sample_calendar "Some ''First''"
      "combine monday (time_hm 16 0)" "combine monday (time_hm 17 0)" None "[]",
      folded first_booking_def]
  note b = book_appointment_atomic [of sample_parser 1000 sample_calendar "Some ''Late''"
      "combine monday (time_hm 17 0)" "combine monday (time_hm 16 0)" None "[]"]
  from a ok other
  have "event_id (fst first_booking) = Some (new_event_id sample_calendar 1000)
        \<and> map_of (events (snd first_booking)) ''mock_event_0''
            = map_of (events sample_calendar) ''mock_event_0''"
    by blast
  moreover from b inv
  have "\<not> success (fst (book_appointment sample_parser 1000 sample_calendar (Some ''Late'')
         (combine monday (time_hm 17 0)) (combine monday (time_hm 16 0)) None []))
   \<and> snd (book_appointment sample_parser 1000 sample_calendar (Some ''Late'')
         (combine monday (time_hm 17 0)) (combine monday (time_hm 16 0)) None [])
       = sample_calendar"
    by blast
  ultimately show ?thesis using ok by simp
qed

text \<open>
  \<^verbatim>\<open>InputValidator.validate_appointment_request\<close>, which no booking path calls, checks a
  request with start, end and a non-zero duration in this order: duration below 15, duration
  above 240, start not before end, start more than 90 days ahead, start in the past; each
  check has its own message.
\<close>

theorem validate_appointment_request_cases:
  assumes "start_date r = Some s" and "end_date r = Some e" and "req_duration r = Some d"
    and "d \<noteq> 0"
  shows "validate_appointment_request now_dt r =
           (if d < 15 then (False, Some ''Duration must be at least 15 minutes'')
            else if d > 240 then (False, Some ''Duration cannot exceed 240 minutes'')
            else if s \<ge> e then (False, Some ''Start time must be before end time'')
            else if s > now_dt + days 90
            then (False, Some ''Cannot book appointments more than 90 days in advance'')
            else if s < now_dt then (False, Some ''Cannot book appointments in the past'')
            else (True, None))"
  using assms by (simp add: validator_eval)

text \<open>
  Witness: durations 5 and 500 are rejected, durations 15 and 240 are accepted.
\<close>

theorem validate_appointment_request_cases_witness:
  "validate_appointment_request (now sample_env) (draft_at 15 5 5)
     = (False, Some ''Duration must be at least 15 minutes'')
   \<and> validate_appointment_request (now sample_env) (draft_at 15 500 500)
     = (False, Some ''Duration cannot exceed 240 minutes'')
   \<and> validate_appointment_request (now sample_env) (draft_at 15 15 15) = (True, None)
   \<and> validate_appointment_request (now sample_env) (draft_at 15 240 240) = (True, None)"
proof -
  have f: "start_date (draft_at 15 d d) = Some (combine monday (time_hm 15 0))"
      "end_date (draft_at 15 d d) = Some (combine monday (time_hm 15 0) + minutes d)"
      "req_duration (draft_at 15 d d) = Some d" for d
    by (simp_all add: draft_at_def)
  have "validate_appointment_request (now sample_env) (draft_at 15 5 5)
     = (False, Some ''Duration must be at least 15 minutes'')"
    using validate_appointment_request_cases [OF f, of 5 "now sample_env"] by simp
  moreover have "validate_appointment_request (now sample_env) (draft_at 15 500 500)
     = (False, Some ''Duration cannot exceed 240 minutes'')"
    using validate_appointment_request_cases [OF f, of 500 "now sample_env"] by simp
  moreover
  have "validate_appointment_request (now sample_env) (draft_at 15 15 15) = (True, None)"
    using validate_appointment_request_cases [OF f, of 15 "now sample_env"]
    by (simp add: sample_env_def time_defs monday_def)
  moreover
  have "validate_appointment_request (now sample_env) (draft_at 15 240 240) = (True, None)"
    using validate_appointment_request_cases [OF f, of 240 "now sample_env"]
    by (simp add: sample_env_def time_defs monday_def)
  ultimately show ?thesis by simp
qed

text \<open>
  The availability search skips Saturdays and Sundays: a window none of whose days is a
  weekday has no slot.
\<close>

theorem get_availability_no_business_day:
  assumes "\<forall>day. date_of window_start \<le> day \<and> day \<le> date_of window_end
             \<longrightarrow> weekday day \<ge> 5"
  shows "get_availability cal window_start window_end d = []"
proof -
  have "slot \<notin> set (get_availability cal window_start window_end d)" for slot
    using assms unfolding get_availability_def availability_loop_set by force
  then show ?thesis by (cases "get_availability cal window_start window_end d") auto
qed

text \<open>
  Witness: the window from Saturday 8:00 to Sunday 20:00 before the sample Monday.
\<close>

theorem get_availability_no_business_day_witness:
  "weekday (monday - 2) = 5 \<and> weekday (monday - 1) = 6
   \<and> get_availability sample_calendar (combine (monday - 2) (time_hm 8 0))
        (combine (monday - 1) (time_hm 20 0)) 60 = []"
proof -
  have d1: "date_of (combine (monday - 2) (time_hm 8 0)) = monday - 2"
    and d2: "date_of (combine (monday - 1) (time_hm 20 0)) = monday - 1"
    by (simp_all add: time_defs monday_def)
  have w1: "weekday (monday - 2) = 5" and w2: "weekday (monday - 1) = 6"
    by (simp_all add: weekday_def monday_def)
  have "\<forall>day. date_of (combine (monday - 2) (time_hm 8 0)) \<le> day
             \<and> day \<le> date_of (combine (monday - 1) (time_hm 20 0)) \<longrightarrow> weekday day \<ge> 5"
  proof (intro allI impI)
    fix day
    assume "date_of (combine (monday - 2) (time_hm 8 0)) \<le> day
             \<and> day \<le> date_of (combine (monday - 1) (time_hm 20 0))"
    then have "day = monday - 2 \<or> day = monday - 1" unfolding d1 d2 by arith
    with w1 w2 show "weekday day \<ge> 5" by auto
  qed
  from get_availability_no_business_day [OF this] w1 w2 show ?thesis by simp
qed

text \<open>
  A reply that reads \<^verbatim>\<open>no\<close> (in any letter case) to the confirmation question cancels: the
  session returns to \<^verbatim>\<open>INITIAL\<close> and nothing is written to the calendar.
\<close>

theorem confirm_booking_cancel:
  assumes "get_last_user_message st = Some user_message" and "lower user_message = ''no''"
  shows "confirm_booking env svc st
         = (update_state INITIAL (add_assistant_message Cancelled st), svc)"
proof -
  from assms(2) have "user_message \<noteq> []" by (auto simp: lower_def)
  with assms show ?thesis by (simp add: confirm_booking_def any_in_def)
qed

text \<open>
  Witness: the reply \<^verbatim>\<open>No\<close> to the confirmation of the draft for Monday 15:00.
\<close>

theorem confirm_booking_cancel_witness:
  "confirm_booking sample_env (Mock sample_calendar)
     (state_with CONFIRMING_BOOKING (draft_at 15 60 60) ''No'')
   = (update_state INITIAL
        (add_assistant_message Cancelled
           (state_with CONFIRMING_BOOKING (draft_at 15 60 60) ''No'')),
      Mock sample_calendar)"
proof -
  have a: "get_last_user_message (state_with CONFIRMING_BOOKING (draft_at 15 60 60) ''No'')
           = Some ''No''"
    by (simp add: get_last_user_message_def state_with_def)
  have b: "lower ''No'' = ''no''" by (simp add: lower_def lower_char_def)
  from confirm_booking_cancel [OF a b] show ?thesis .
qed

text \<open>
  The detail collection stores the merged draft: after a turn with a non-empty user
  message, whatever the calendar answers and whichever state the turn ends in, the
  session's draft is the merge of the draft before the turn with the utterance and the
  extraction result.
\<close>

theorem collect_stores_the_merged_draft:
  assumes "get_last_user_message st = Some user_message" and "user_message \<noteq> []"
  shows "appointment_request (collect_appointment_details_with_ai env svc st)
         = Some (merge_draft (date_parser env) user_message
                   (extract_info env user_message
                      (case appointment_request st of Some r \<Rightarrow> r | None \<Rightarrow> new_request))
                   (appointment_request st))"
proof -
  let ?r0 = "case appointment_request st of Some r \<Rightarrow> r | None \<Rightarrow> new_request"
  let ?r1 = "merge_fields (date_parser env) user_message (extract_info env user_message ?r0) ?r0"
  show ?thesis
  proof (cases "start_date ?r1 \<noteq> None \<and> req_duration ?r1 \<noteq> None")
    case True
    let ?st' = "update_state CHECKING_AVAILABILITY
                 (set_appointment_request (derive_end ?r1) (set_appointment_request ?r1 st))"
    have hs: "has_start ?st'"
      using True by (simp add: has_start_def update_state_def set_appointment_request_def
          derive_end_fields)
    have "collect_appointment_details_with_ai env svc st = check_availability env svc ?st'"
      using assms True
      by (simp add: collect_appointment_details_with_ai.simps [of env svc st] Let_def)
    then show ?thesis
      using check_availability_request [OF hs, of env svc]
      by (simp add: merge_draft_def update_state_def set_appointment_request_def)
  next
    case False
    then have de: "derive_end ?r1 = ?r1"
      by (auto simp: derive_end_def split: option.splits)
    from False assms show ?thesis
      by (auto simp: collect_appointment_details_with_ai.simps [of env svc st] Let_def
            merge_draft_def de update_state_def set_appointment_request_def
            add_assistant_message_def)
  qed
qed

text \<open>
  Witness: the utterance \<^verbatim>\<open>hello\<close> in a session with the empty draft; the stored draft has
  the default duration and the default title.
\<close>

theorem collect_stores_the_merged_draft_witness:
  "get_last_user_message (state_with COLLECTING_DETAILS empty_draft ''hello'') = Some ''hello''
   \<and> appointment_request (collect_appointment_details_with_ai sample_env
        (Mock sample_calendar) (state_with COLLECTING_DETAILS empty_draft ''hello''))
      = Some (empty_draft\<lparr>title := Some ''Meeting'', req_duration := Some 60\<rparr>)"
proof -
  let ?st = "state_with COLLECTING_DETAILS empty_draft ''hello''"
  have a: "get_last_user_message ?st = Some ''hello''"
    by (simp add: get_last_user_message_def state_with_def)
  have ne: "''hello'' \<noteq> []" by simp
  have r: "appointment_request ?st = Some empty_draft" by (simp add: state_with_def)
  have x: "extract_info sample_env ''hello'' empty_draft = None"
    by (simp add: extract_info_def sample_env_def)
  have m: "merge_draft sample_parser ''hello'' None (Some empty_draft)
             = empty_draft\<lparr>title := Some ''Meeting'', req_duration := Some 60\<rparr>"
    by (simp add: merge_eval sample_parser_def empty_draft_def)
  have dp: "date_parser sample_env = sample_parser" by (simp add: sample_env_def)
  from collect_stores_the_merged_draft [OF a ne, of sample_env "Mock sample_calendar"]
  show ?thesis by (simp add: a r x m dp)
qed

end
